theory Spec2Isabelle
  imports Complex_Main
begin


section \<open>Instruction set (isa.py)\<close>

text \<open>
  The closed opcode enumeration \<^verbatim>\<open>class Opcode(str, Enum)\<close>, one constructor per
  member, in the order of the source.
\<close>

datatype opcode =
    WR_DIR | WR_NDR | READ_DIR | READ_NDR
  | PRINT
  | BEGIN | NOP
  | MOD | PLUS | MINUS | MULT | DIV | POW | LT | NEG | INV
  | DUP | OVER | ROT | SWAP
  | PUSH | DROP
  | JMP | JNT
  | HALT

text \<open>The string value of every member (\<^verbatim>\<open>Opcode.X.value\<close>).\<close>

fun opcode_value :: "opcode \<Rightarrow> string" where
  "opcode_value WR_DIR = ''WRITE_DIR''"
| "opcode_value WR_NDR = ''WRITE_NDR''"
| "opcode_value READ_DIR = ''READ_DIR''"
| "opcode_value READ_NDR = ''READ_NDR''"
| "opcode_value PRINT = ''PRINT''"
| "opcode_value BEGIN = ''BEGIN''"
| "opcode_value NOP = ''NOP''"
| "opcode_value MOD = ''MOD''"
| "opcode_value PLUS = ''PLUS''"
| "opcode_value MINUS = ''MINUS''"
| "opcode_value MULT = ''MULT''"
| "opcode_value DIV = ''DIV''"
| "opcode_value POW = ''POW''"
| "opcode_value LT = ''LT''"
| "opcode_value NEG = ''NEG''"
| "opcode_value INV = ''INVERT''"
| "opcode_value DUP = ''DUP''"
| "opcode_value OVER = ''OVER''"
| "opcode_value ROT = ''ROT''"
| "opcode_value SWAP = ''SWAP''"
| "opcode_value PUSH = ''PUSH''"
| "opcode_value DROP = ''DROP''"
| "opcode_value JMP = ''JMP''"
| "opcode_value JNT = ''JNT''"
| "opcode_value HALT = ''HALT''"

text \<open>
  Python values that an instruction argument (and hence the program counter, which
  \<^verbatim>\<open>JMP\<close> and \<^verbatim>\<open>JNT\<close> load from the argument) can hold: an integer or a string.
\<close>

datatype pyval = PyInt int | PyStr string

text \<open>\<^verbatim>\<open>Term(namedtuple('Term', 'line_num com arg'))\<close>: provenance of an instruction.\<close>

record Term =
  line_num :: int
  com :: int
  term_arg :: string

text \<open>
  An instruction is the dictionary \<^verbatim>\<open>{"opcode": ..., "arg": ..., "term": ...}\<close>; the keys
  \<^verbatim>\<open>arg\<close> and \<^verbatim>\<open>term\<close> may be absent.
\<close>

record instr =
  opcode :: opcode
  arg :: "pyval option"
  instr_term :: "Term option"

section \<open>Exceptions and results\<close>

text \<open>
  The Python exceptions that the machine and the program-file functions can raise. A
  failed \<^verbatim>\<open>assert\<close> is \<open>AssertionError\<close>.
\<close>

datatype exc =
    StopIteration | AssertionError | TypeError | KeyError | IndexError
  | ZeroDivisionError | OverflowError | ValueError | JSONDecodeError | UnboundLocalError

text \<open>
  A method call on an object with state \<open>'s\<close> either returns a value and the updated
  object, or raises with the object as the raise left it; \<open>state_of\<close> is the object
  after the call.
\<close>

datatype ('a, 's) result = Ok 'a (state_of: 's) | Raise exc (state_of: 's)

definition bnd :: "('a, 's) result \<Rightarrow> ('a \<Rightarrow> 's \<Rightarrow> ('b, 's) result) \<Rightarrow> ('b, 's) result" where
  "bnd r f = (case r of Ok a s \<Rightarrow> f a s | Raise e s \<Rightarrow> Raise e s)"

text \<open>Python list indexing and item assignment: a negative index counts from the end.\<close>

definition py_index :: "'a list \<Rightarrow> int \<Rightarrow> 'a option" where
  "py_index xs i =
     (let n = int (length xs); j = (if i < 0 then n + i else i)
      in if 0 \<le> j \<and> j < n then Some (xs ! nat j) else None)"

definition py_set :: "'a list \<Rightarrow> int \<Rightarrow> 'a \<Rightarrow> 'a list option" where
  "py_set xs i v =
     (let n = int (length xs); j = (if i < 0 then n + i else i)
      in if 0 \<le> j \<and> j < n then Some (xs[nat j := v]) else None)"

text \<open>\<^verbatim>\<open>str(n)\<close> of an integer: its decimal digits, with a minus sign when negative.\<close>

fun str_nat :: "nat \<Rightarrow> string" where
  "str_nat n =
     (if n < 10 then [''0123456789'' ! n]
      else str_nat (n div 10) @ [''0123456789'' ! (n mod 10)])"

definition str_int :: "int \<Rightarrow> string" where
  "str_int i = (if i < 0 then CHR ''-'' # str_nat (nat (- i)) else str_nat (nat i))"

section \<open>Values of the machine\<close>

text \<open>
  A cell of the unified memory, and of the operand stack, which receives what is read
  from memory and what the arithmetic unit latches: an integer, a float, or an
  instruction of the program text (a dictionary).

  Floats come from \<^verbatim>\<open>**\<close>, which Python computes in floating point when the exponent is
  negative, and from \<^verbatim>\<open>val += 1\<close> on such a value. A finite float is a rational number,
  and these two operations give no infinity and no NaN (a power with a negative
  exponent of an integer other than 0 has magnitude at most 1). The sign of a zero is
  not kept: no operation of the machine tells \<^verbatim>\<open>-0.0\<close> from \<^verbatim>\<open>0.0\<close> (both are equal to 0
  in every comparison, \<^verbatim>\<open>int\<close> of both is 0, both plus 1 are \<^verbatim>\<open>1.0\<close>, and \<^verbatim>\<open>chr\<close>
  rejects both before \<^verbatim>\<open>str\<close> could print them).
\<close>

datatype cell = Num int | Flt rat | Ins instr

text \<open>\<^verbatim>\<open>int(x)\<close> of a float: truncation toward zero.\<close>

definition float_int :: "rat \<Rightarrow> int" where
  "float_int f = (if 0 \<le> f then \<lfloor>f\<rfloor> else \<lceil>f\<rceil>)"

text \<open>
  \<^verbatim>\<open>int(val)\<close> on a cell; \<open>None\<close> on an instruction, where Python raises \<open>TypeError\<close>.
\<close>

fun int_of :: "cell \<Rightarrow> int option" where
  "int_of (Num v) = Some v"
| "int_of (Flt f) = Some (float_int f)"
| "int_of (Ins _) = None"

text \<open>\<^verbatim>\<open>val == n\<close> for an integer \<open>n\<close>: a dictionary is equal to no number.\<close>

fun py_eq :: "cell \<Rightarrow> int \<Rightarrow> bool" where
  "py_eq (Num v) n \<longleftrightarrow> v = n"
| "py_eq (Flt f) n \<longleftrightarrow> f = of_int n"
| "py_eq (Ins _) n \<longleftrightarrow> False"

text \<open>
  The conversion of an integer to a float, which \<^verbatim>\<open>**\<close> with a negative exponent applies
  to both operands, raises \<open>OverflowError\<close> when the integer rounds to \<open>2 ^ 1024\<close> or
  beyond; the largest double is \<open>2 ^ 1024 - 2 ^ 971\<close>, and rounding is to nearest, ties
  to even.
\<close>

definition float_fits :: "int \<Rightarrow> bool" where
  "float_fits n \<longleftrightarrow> \<bar>n\<bar> < 2 ^ 1024 - 2 ^ 970"

subsection \<open>What the source takes from outside\<close>

text \<open>
  \<^verbatim>\<open>translator.is_number\<close>, which \<^verbatim>\<open>micro_push\<close> calls, is code of the repository that is
  not among the sources; the spec says only that \<^verbatim>\<open>PUSH\<close> pushes a numeric literal, or
  the character code of a single character. The test is therefore a parameter of the
  machine, and so is the reading of a string by Python's \<^verbatim>\<open>int\<close> (\<open>None\<close> where it
  raises \<open>ValueError\<close>).

  The floating-point arithmetic of Python is that of the platform's C library, whose
  rounding the language does not fix. The three operations on floats whose result
  depends on it are parameters as well: \<open>float_pow a b\<close> is \<^verbatim>\<open>float(a) ** float(b)\<close> for
  integers \<open>a \<noteq> 0\<close> and \<open>b < 0\<close> within the floats, \<open>float_inc f\<close> is \<^verbatim>\<open>f + 1\<close>, and
  \<open>float_str f\<close> is \<^verbatim>\<open>str(f)\<close>. Every theorem below holds for all values of the five.
\<close>

record host =
  is_number :: "pyval \<Rightarrow> bool"
  int_of_str :: "string \<Rightarrow> int option"
  float_pow :: "int \<Rightarrow> int \<Rightarrow> rat"
  float_inc :: "rat \<Rightarrow> rat"
  float_str :: "rat \<Rightarrow> string"

section \<open>Memory (machine.py)\<close>

text \<open>
  \<open>data_address\<close> holds what \<^verbatim>\<open>latch_data_address\<close> was given, an integer or a float.
\<close>

record memory =
  data_address :: cell
  memory_size :: int
  data :: "cell list"
  program_start :: int
  program_len :: int
  input_buffer :: "string list"
  output_buffer :: "string list"

text \<open>
  \<^verbatim>\<open>Memory.__init__\<close>. \<^verbatim>\<open>[0] * k\<close> is the empty list for \<open>k \<le> 0\<close>, as
  \<open>replicate (nat k)\<close> is.
\<close>

definition Memory_init :: "int \<Rightarrow> instr list \<Rightarrow> string list \<Rightarrow> int list \<Rightarrow> exc + memory" where
  "Memory_init memory_size' program input_buffer' data' =
     (if \<not> memory_size' > 0 then Inl AssertionError
      else if \<not> memory_size' > int (length program) + 128 then Inl AssertionError
      else Inr \<lparr>data_address = Num 0,
                memory_size = memory_size',
                data = map Num data'
                  @ replicate (nat (memory_size' - int (length program) - int (length data'))) (Num 0)
                  @ map Ins program,
                program_start = memory_size' - int (length program),
                program_len = int (length program),
                input_buffer = input_buffer',
                output_buffer = []\<rparr>)"

text \<open>
  \<^verbatim>\<open>0 <= val <= self.memory_size\<close> compares a float by its value, and is a \<open>TypeError\<close> on
  a dictionary.
\<close>

definition latch_data_address :: "cell \<Rightarrow> memory \<Rightarrow> (unit, memory) result" where
  "latch_data_address val m =
     (case val of
        Ins _ \<Rightarrow> Raise TypeError m
      | Num v \<Rightarrow>
          if \<not> (0 \<le> v \<and> v \<le> memory_size m) then Raise AssertionError m
          else Ok () (m\<lparr>data_address := val\<rparr>)
      | Flt f \<Rightarrow>
          if \<not> (0 \<le> f \<and> f \<le> of_int (memory_size m)) then Raise AssertionError m
          else Ok () (m\<lparr>data_address := val\<rparr>))"

text \<open>
  \<^verbatim>\<open>self.data[self.data_address]\<close>, reading and writing: a list index that is not an
  integer is a \<open>TypeError\<close>.
\<close>

definition data_get :: "memory \<Rightarrow> (cell, memory) result" where
  "data_get m =
     (case data_address m of
        Num a \<Rightarrow>
          (case py_index (data m) a of
             None \<Rightarrow> Raise IndexError m
           | Some v \<Rightarrow> Ok v m)
      | _ \<Rightarrow> Raise TypeError m)"

definition data_put :: "cell \<Rightarrow> memory \<Rightarrow> (unit, memory) result" where
  "data_put val m =
     (case data_address m of
        Num a \<Rightarrow>
          (case py_set (data m) a val of
             None \<Rightarrow> Raise IndexError m
           | Some d \<Rightarrow> Ok () (m\<lparr>data := d\<rparr>))
      | _ \<Rightarrow> Raise TypeError m)"

text \<open>
  \<^verbatim>\<open>Memory.read\<close>. The tests \<^verbatim>\<open>self.data_address != 1\<close> and \<^verbatim>\<open>!= 0\<close> are by value, so that
  the float \<^verbatim>\<open>0.0\<close> selects the input port as the integer 0 does.
\<close>

definition Memory_read :: "memory \<Rightarrow> (cell, memory) result" where
  "Memory_read m =
     (if py_eq (data_address m) 1 then Raise AssertionError m
      else if \<not> py_eq (data_address m) 0 then data_get m
      else
        (case input_buffer m of
           [] \<Rightarrow> Raise StopIteration m
         | value_as_string # rest \<Rightarrow>
             let m1 = m\<lparr>input_buffer := rest\<rparr> in
             (case value_as_string of
                [] \<Rightarrow> Raise IndexError m1
              | c # _ \<Rightarrow>
                  (case py_set (data m1) 0 (Num (of_char c)) of
                     None \<Rightarrow> Raise IndexError m1
                   | Some d \<Rightarrow> Ok (Num (of_char c)) (m1\<lparr>data := d\<rparr>)))))"

text \<open>
  \<^verbatim>\<open>Memory.write\<close>. On the output port, \<^verbatim>\<open>0 <= value <= 127\<close> is a \<open>TypeError\<close> on a
  dictionary, and \<^verbatim>\<open>chr(value)\<close> is a \<open>TypeError\<close> on a float; a float outside the range
  is appended as \<^verbatim>\<open>str\<close> prints it.
\<close>

definition Memory_write :: "host \<Rightarrow> cell \<Rightarrow> memory \<Rightarrow> (unit, memory) result" where
  "Memory_write h val m =
     (if py_eq (data_address m) 0 then Raise AssertionError m
      else if \<not> py_eq (data_address m) 1 then data_put val m
      else
        (case py_set (data m) 1 val of
           None \<Rightarrow> Raise IndexError m
         | Some d \<Rightarrow>
             let m1 = m\<lparr>data := d\<rparr> in
             (case val of
                Ins _ \<Rightarrow> Raise TypeError m1
              | Num v \<Rightarrow>
                  Ok () (m1\<lparr>output_buffer := output_buffer m1 @
                    [if 0 \<le> v \<and> v \<le> 127 then [char_of v] else str_int v]\<rparr>)
              | Flt f \<Rightarrow>
                  if 0 \<le> f \<and> f \<le> 127 then Raise TypeError m1
                  else Ok () (m1\<lparr>output_buffer := output_buffer m1 @ [float_str h f]\<rparr>))))"

definition get_instruction :: "pyval \<Rightarrow> memory \<Rightarrow> (cell, memory) result" where
  "get_instruction pc' m =
     (case pc' of
        PyStr _ \<Rightarrow> Raise TypeError m
      | PyInt p \<Rightarrow>
          if \<not> p < program_len m then Raise AssertionError m
          else if \<not> (128 \<le> p + program_start m \<and> p + program_start m \<le> memory_size m)
            then Raise AssertionError m
          else
            (case py_index (data m) (p + program_start m) of
               None \<Rightarrow> Raise IndexError m
             | Some v \<Rightarrow> Ok v m))"

section \<open>Operand stack and arithmetic unit (DataPath)\<close>

text \<open>
  The \<^verbatim>\<open>memory\<close> attribute of \<^verbatim>\<open>DataPath\<close> is the same object as the control unit's
  \<^verbatim>\<open>mem\<close>; no method of \<^verbatim>\<open>DataPath\<close> reads it, so it is not a field here.
\<close>

record data_path =
  stack :: "cell list"
  head :: int
  dp_memory_size :: int
  alu :: cell

definition DataPath_init :: "int \<Rightarrow> exc + data_path" where
  "DataPath_init memory_size' =
     (if \<not> memory_size' > 0 then Inl AssertionError
      else Inr \<lparr>stack = replicate (nat memory_size') (Num 0),
                head = 0,
                dp_memory_size = memory_size',
                alu = Num 0\<rparr>)"

definition get_tos :: "int \<Rightarrow> data_path \<Rightarrow> (cell, data_path) result" where
  "get_tos offset dp =
     (if \<not> (0 \<le> offset \<and> offset \<le> 3) then Raise AssertionError dp
      else if \<not> offset < head dp then Raise AssertionError dp
      else
        (case py_index (stack dp) (head dp - offset - 1) of
           None \<Rightarrow> Raise IndexError dp
         | Some v \<Rightarrow> Ok v dp))"

definition latch_head :: "int \<Rightarrow> data_path \<Rightarrow> (unit, data_path) result" where
  "latch_head sel_val dp =
     (if sel_val \<notin> {-1, -3, 1, -2} then Raise AssertionError dp
      else
        let dp1 = dp\<lparr>head := head dp + sel_val\<rparr> in
        if \<not> (0 \<le> head dp1 \<and> head dp1 < dp_memory_size dp1) then Raise AssertionError dp1
        else Ok () dp1)"

definition push :: "cell \<Rightarrow> data_path \<Rightarrow> (unit, data_path) result" where
  "push val dp =
     (case py_set (stack dp) (head dp) val of
        None \<Rightarrow> Raise IndexError dp
      | Some st \<Rightarrow> latch_head 1 (dp\<lparr>stack := st\<rparr>))"

text \<open>\<^verbatim>\<open>int(val)\<close> and \<^verbatim>\<open>val += 1\<close> on a cell: a \<open>TypeError\<close> on an instruction.\<close>

definition py_int :: "cell \<Rightarrow> 's \<Rightarrow> (int, 's) result" where
  "py_int val s = (case int_of val of Some v \<Rightarrow> Ok v s | None \<Rightarrow> Raise TypeError s)"

definition py_inc :: "host \<Rightarrow> cell \<Rightarrow> 's \<Rightarrow> (cell, 's) result" where
  "py_inc h val s =
     (case val of
        Num v \<Rightarrow> Ok (Num (v + 1)) s
      | Flt f \<Rightarrow> Ok (Flt (float_inc h f)) s
      | Ins _ \<Rightarrow> Raise TypeError s)"

definition oe_stack :: "host \<Rightarrow> int \<Rightarrow> opcode option \<Rightarrow> data_path \<Rightarrow> (cell, data_path) result" where
  "oe_stack h offset selector dp =
     (if \<not> head dp \<ge> 1 then Raise AssertionError dp
      else
        bnd (get_tos offset dp) (\<lambda>val dp.
          if selector \<in> {Some READ_NDR, Some WR_NDR}
          then py_inc h val dp
          else Ok val dp))"

text \<open>\<^verbatim>\<open>self.get_tos(0) == -1\<close> holds of the integer \<open>-1\<close> and of the float \<^verbatim>\<open>-1.0\<close>.\<close>

definition is_true :: "data_path \<Rightarrow> (int, data_path) result" where
  "is_true dp =
     bnd (get_tos 0 dp) (\<lambda>t dp.
       let res = (if py_eq t (-1) then -1 else 0) in
       bnd (latch_head (-1) dp) (\<lambda>_ dp. Ok res dp))"

text \<open>\<^verbatim>\<open>int(self.get_tos(offset))\<close>.\<close>

definition tos_int :: "int \<Rightarrow> data_path \<Rightarrow> (int, data_path) result" where
  "tos_int offset dp = bnd (get_tos offset dp) py_int"

text \<open>
  \<^verbatim>\<open>DataPath.latch_alu\<close>: a chain of \<^verbatim>\<open>if op_sel == ...\<close> tests, of which at most one
  holds. The operands are evaluated left to right as the expressions are written.
  \<^verbatim>\<open>%\<close> raises on a zero divisor and otherwise is the flooring remainder, as \<open>mod\<close> on
  \<open>int\<close>. No test names \<open>DIV\<close>, \<open>MINUS\<close> or any opcode of the last equation, which
  leaves the accumulator as it is.

  \<^verbatim>\<open>a ** b\<close> on integers is an integer when \<open>b \<ge> 0\<close>. When \<open>b < 0\<close> Python converts both
  operands to floats (\<open>OverflowError\<close> when one does not fit), raises
  \<open>ZeroDivisionError\<close> when the base is zero, and otherwise gives the float power.
\<close>

fun latch_alu :: "host \<Rightarrow> opcode \<Rightarrow> data_path \<Rightarrow> (unit, data_path) result" where
  "latch_alu h READ_NDR dp =
     bnd (tos_int 1 dp) (\<lambda>a dp. Ok () (dp\<lparr>alu := Num (a + 1)\<rparr>))"
| "latch_alu h MOD dp =
     bnd (tos_int 1 dp) (\<lambda>a dp. bnd (tos_int 0 dp) (\<lambda>b dp.
       if b = 0 then Raise ZeroDivisionError dp else Ok () (dp\<lparr>alu := Num (a mod b)\<rparr>)))"
| "latch_alu h PLUS dp =
     bnd (tos_int 1 dp) (\<lambda>a dp. bnd (tos_int 0 dp) (\<lambda>b dp.
       Ok () (dp\<lparr>alu := Num (a + b)\<rparr>)))"
| "latch_alu h MULT dp =
     bnd (tos_int 1 dp) (\<lambda>a dp. bnd (tos_int 0 dp) (\<lambda>b dp.
       Ok () (dp\<lparr>alu := Num (a * b)\<rparr>)))"
| "latch_alu h POW dp =
     bnd (tos_int 0 dp) (\<lambda>a dp. bnd (tos_int 1 dp) (\<lambda>b dp.
       if 0 \<le> b then Ok () (dp\<lparr>alu := Num (a ^ nat b)\<rparr>)
       else if \<not> (float_fits a \<and> float_fits b) then Raise OverflowError dp
       else if a = 0 then Raise ZeroDivisionError dp
       else Ok () (dp\<lparr>alu := Flt (float_pow h a b)\<rparr>)))"
| "latch_alu h LT dp =
     bnd (tos_int 1 dp) (\<lambda>a dp. bnd (tos_int 0 dp) (\<lambda>b dp.
       Ok () (dp\<lparr>alu := Num (if a < b then -1 else 0)\<rparr>)))"
| "latch_alu h NEG dp =
     bnd (tos_int 0 dp) (\<lambda>a dp. Ok () (dp\<lparr>alu := Num (a * (-1))\<rparr>))"
| "latch_alu h INV dp =
     bnd (tos_int 0 dp) (\<lambda>a dp. Ok () (dp\<lparr>alu := Num ((a + 1) * (-1))\<rparr>))"
| "latch_alu h JNT dp =
     bnd (tos_int 0 dp) (\<lambda>a dp. Ok () (dp\<lparr>alu := Num (if a = -1 then -1 else 0)\<rparr>))"
| "latch_alu h _ dp = Ok () dp"

section \<open>Control unit\<close>

record control_unit =
  data_path :: data_path
  mem :: memory
  pc :: pyval
  cu_tick :: int

definition ControlUnit_init :: "data_path \<Rightarrow> memory \<Rightarrow> control_unit" where
  "ControlUnit_init data_path' memory' =
     \<lparr>data_path = data_path', mem = memory', pc = PyInt 0, cu_tick = 0\<rparr>"

text \<open>A call \<^verbatim>\<open>self.data_path.f(...)\<close> or \<^verbatim>\<open>self.mem.f(...)\<close> from the control unit.\<close>

definition in_dp :: "(data_path \<Rightarrow> ('a, data_path) result) \<Rightarrow> control_unit \<Rightarrow> ('a, control_unit) result" where
  "in_dp f cu =
     (case f (data_path cu) of
        Ok a d \<Rightarrow> Ok a (cu\<lparr>data_path := d\<rparr>)
      | Raise e d \<Rightarrow> Raise e (cu\<lparr>data_path := d\<rparr>))"

definition in_mem :: "(memory \<Rightarrow> ('a, memory) result) \<Rightarrow> control_unit \<Rightarrow> ('a, control_unit) result" where
  "in_mem f cu =
     (case f (mem cu) of
        Ok a m \<Rightarrow> Ok a (cu\<lparr>mem := m\<rparr>)
      | Raise e m \<Rightarrow> Raise e (cu\<lparr>mem := m\<rparr>))"

text \<open>
  \<^verbatim>\<open>tick\<close> also logs \<^verbatim>\<open>repr(self)\<close> at debug level; the logging machinery formats the
  record inside its own handler, which catches what the formatting raises, and
  \<^verbatim>\<open>__repr__\<close> changes no attribute, so the log is no part of the state.
\<close>

definition tick :: "control_unit \<Rightarrow> (unit, control_unit) result" where
  "tick cu = Ok () (cu\<lparr>cu_tick := cu_tick cu + 1\<rparr>)"

definition cur_tick :: "control_unit \<Rightarrow> int" where
  "cur_tick cu = cu_tick cu"

definition latch_pc :: "bool \<Rightarrow> control_unit \<Rightarrow> (unit, control_unit) result" where
  "latch_pc sel_next cu =
     (if sel_next then
        (case pc cu of
           PyInt p \<Rightarrow> Ok () (cu\<lparr>pc := PyInt (p + 1)\<rparr>)
         | PyStr _ \<Rightarrow> Raise TypeError cu)
      else
        bnd (in_mem (get_instruction (pc cu)) cu) (\<lambda>instr cu.
          case instr of
            Num _ \<Rightarrow> Raise TypeError cu
          | Flt _ \<Rightarrow> Raise TypeError cu
          | Ins i \<Rightarrow>
              if opcode i \<notin> {JMP, JNT} then Raise AssertionError cu
              else
                (case arg i of
                   None \<Rightarrow> Raise AssertionError cu
                 | Some a \<Rightarrow> Ok () (cu\<lparr>pc := a\<rparr>))))"

subsection \<open>Instruction arguments\<close>

text \<open>\<^verbatim>\<open>int(arg)\<close> and \<^verbatim>\<open>ord(arg)\<close> on an instruction argument.\<close>

definition int_arg :: "host \<Rightarrow> pyval \<Rightarrow> 's \<Rightarrow> (int, 's) result" where
  "int_arg h a s =
     (case a of
        PyInt n \<Rightarrow> Ok n s
      | PyStr t \<Rightarrow> (case int_of_str h t of None \<Rightarrow> Raise ValueError s | Some n \<Rightarrow> Ok n s))"

definition ord_arg :: "pyval \<Rightarrow> 's \<Rightarrow> (int, 's) result" where
  "ord_arg a s =
     (case a of
        PyStr [c] \<Rightarrow> Ok (of_char c) s
      | _ \<Rightarrow> Raise TypeError s)"

subsection \<open>Micro-operations\<close>

definition micro_read_direct :: "host \<Rightarrow> instr \<Rightarrow> control_unit \<Rightarrow> (unit, control_unit) result" where
  "micro_read_direct h instr cu =
     bnd (in_dp (oe_stack h 0 None) cu) (\<lambda>tos cu.
     bnd (in_mem (latch_data_address tos) cu) (\<lambda>_ cu.
     bnd (in_dp (latch_head (-1)) cu) (\<lambda>_ cu.
     bnd (tick cu) (\<lambda>_ cu.
     bnd (in_mem Memory_read cu) (\<lambda>val cu.
     bnd (in_dp (push val) cu) (\<lambda>_ cu.
     bnd (latch_pc True cu) (\<lambda>_ cu.
     tick cu)))))))"

definition micro_read_indirect :: "host \<Rightarrow> instr \<Rightarrow> control_unit \<Rightarrow> (unit, control_unit) result" where
  "micro_read_indirect h instr cu =
     bnd (in_dp (oe_stack h 0 None) cu) (\<lambda>address cu.
     bnd (in_mem (latch_data_address address) cu) (\<lambda>_ cu.
     bnd (tick cu) (\<lambda>_ cu.
     bnd (in_mem Memory_read cu) (\<lambda>val cu.
     bnd (in_dp (push val) cu) (\<lambda>_ cu.
     bnd (tick cu) (\<lambda>_ cu.
     bnd (in_dp (oe_stack h 0 None) cu) (\<lambda>address cu.
     bnd (in_mem (latch_data_address address) cu) (\<lambda>_ cu.
     bnd (tick cu) (\<lambda>_ cu.
     bnd (in_mem Memory_read cu) (\<lambda>val cu.
     bnd (in_dp (push val) cu) (\<lambda>_ cu.
     bnd (tick cu) (\<lambda>_ cu.
     bnd (in_dp (get_tos 0) cu) (\<lambda>v1 cu.
     bnd (in_dp (get_tos 1) cu) (\<lambda>v2 cu.
     bnd (in_dp (get_tos 2) cu) (\<lambda>v3 cu.
     bnd (in_dp (latch_head (-3)) cu) (\<lambda>_ cu.
     bnd (in_dp (push v1) cu) (\<lambda>_ cu.
     bnd (in_dp (push v2) cu) (\<lambda>_ cu.
     bnd (in_dp (push v3) cu) (\<lambda>_ cu.
     bnd (tick cu) (\<lambda>_ cu.
     bnd (in_dp (oe_stack h 0 None) cu) (\<lambda>address cu.
     bnd (in_mem (latch_data_address address) cu) (\<lambda>_ cu.
     bnd (tick cu) (\<lambda>_ cu.
     bnd (in_dp (oe_stack h 1 (Some (opcode instr))) cu) (\<lambda>val cu.
     bnd (in_mem (Memory_write h val) cu) (\<lambda>_ cu.
     bnd (in_dp (latch_head (-2)) cu) (\<lambda>_ cu.
     bnd (latch_pc True cu) (\<lambda>_ cu.
     tick cu)))))))))))))))))))))))))))"

definition micro_write_direct :: "host \<Rightarrow> instr \<Rightarrow> control_unit \<Rightarrow> (unit, control_unit) result" where
  "micro_write_direct h instr cu =
     bnd (in_dp (get_tos 0) cu) (\<lambda>address cu.
     bnd (in_mem (latch_data_address address) cu) (\<lambda>_ cu.
     bnd (tick cu) (\<lambda>_ cu.
     bnd (in_dp (oe_stack h 1 None) cu) (\<lambda>val cu.
     bnd (in_mem (Memory_write h val) cu) (\<lambda>_ cu.
     bnd (in_dp (latch_head (-2)) cu) (\<lambda>_ cu.
     bnd (latch_pc True cu) (\<lambda>_ cu.
     tick cu)))))))"

definition micro_write_indirect :: "host \<Rightarrow> instr \<Rightarrow> control_unit \<Rightarrow> (unit, control_unit) result" where
  "micro_write_indirect h instr cu =
     bnd (in_dp (oe_stack h 0 None) cu) (\<lambda>address cu.
     bnd (in_mem (latch_data_address address) cu) (\<lambda>_ cu.
     bnd (tick cu) (\<lambda>_ cu.
     bnd (in_mem Memory_read cu) (\<lambda>val cu.
     bnd (in_dp (push val) cu) (\<lambda>_ cu.
     bnd (tick cu) (\<lambda>_ cu.
     bnd (in_dp (oe_stack h 0 None) cu) (\<lambda>address cu.
     bnd (in_mem (latch_data_address address) cu) (\<lambda>_ cu.
     bnd (tick cu) (\<lambda>_ cu.
     bnd (in_dp (oe_stack h 2 None) cu) (\<lambda>val cu.
     bnd (in_mem (Memory_write h val) cu) (\<lambda>_ cu.
     bnd (tick cu) (\<lambda>_ cu.
     bnd (in_dp (oe_stack h 1 None) cu) (\<lambda>address cu.
     bnd (in_mem (latch_data_address address) cu) (\<lambda>_ cu.
     bnd (tick cu) (\<lambda>_ cu.
     bnd (in_dp (oe_stack h 0 (Some (opcode instr))) cu) (\<lambda>val cu.
     bnd (in_mem (Memory_write h val) cu) (\<lambda>_ cu.
     bnd (in_dp (latch_head (-3)) cu) (\<lambda>_ cu.
     bnd (latch_pc True cu) (\<lambda>_ cu.
     tick cu)))))))))))))))))))"

text \<open>\<^verbatim>\<open>is_true\<close> returns \<open>-1\<close> or \<open>0\<close>; the \<^verbatim>\<open>if\<close> takes any non-zero integer as true.\<close>

definition micro_jump_if_not_true :: "instr \<Rightarrow> control_unit \<Rightarrow> (unit, control_unit) result" where
  "micro_jump_if_not_true instr cu =
     bnd (in_dp is_true cu) (\<lambda>res cu.
     bnd (if res \<noteq> 0 then latch_pc True cu else latch_pc False cu) (\<lambda>_ cu.
     tick cu))"

definition micro_halt :: "instr \<Rightarrow> control_unit \<Rightarrow> (unit, control_unit) result" where
  "micro_halt instr cu = Raise StopIteration cu"

definition micro_no_operation :: "instr \<Rightarrow> control_unit \<Rightarrow> (unit, control_unit) result" where
  "micro_no_operation instr cu =
     bnd (latch_pc True cu) (\<lambda>_ cu.
     tick cu)"

definition micro_alu_operation :: "host \<Rightarrow> instr \<Rightarrow> control_unit \<Rightarrow> (unit, control_unit) result" where
  "micro_alu_operation h instr cu =
     bnd (in_dp (latch_alu h (opcode instr)) cu) (\<lambda>_ cu.
     bnd (if opcode instr \<in> {NEG, INV}
          then in_dp (latch_head (-1)) cu
          else in_dp (latch_head (-2)) cu) (\<lambda>_ cu.
     bnd (tick cu) (\<lambda>_ cu.
     bnd (in_dp (push (alu (data_path cu))) cu) (\<lambda>_ cu.
     bnd (latch_pc True cu) (\<lambda>_ cu.
     tick cu)))))"

definition micro_rotate :: "instr \<Rightarrow> control_unit \<Rightarrow> (unit, control_unit) result" where
  "micro_rotate instr cu =
     bnd (in_dp (get_tos 1) cu) (\<lambda>v1 cu.
     bnd (in_dp (get_tos 0) cu) (\<lambda>v2 cu.
     bnd (in_dp (get_tos 2) cu) (\<lambda>v3 cu.
     bnd (in_dp (latch_head (-3)) cu) (\<lambda>_ cu.
     bnd (in_dp (push v1) cu) (\<lambda>_ cu.
     bnd (in_dp (push v2) cu) (\<lambda>_ cu.
     bnd (in_dp (push v3) cu) (\<lambda>_ cu.
     bnd (latch_pc True cu) (\<lambda>_ cu.
     tick cu))))))))"

definition micro_duplicate :: "instr \<Rightarrow> control_unit \<Rightarrow> (unit, control_unit) result" where
  "micro_duplicate instr cu =
     bnd (in_dp (get_tos 0) cu) (\<lambda>v cu.
     bnd (in_dp (push v) cu) (\<lambda>_ cu.
     bnd (latch_pc True cu) (\<lambda>_ cu.
     tick cu)))"

definition micro_over :: "instr \<Rightarrow> control_unit \<Rightarrow> (unit, control_unit) result" where
  "micro_over instr cu =
     bnd (in_dp (get_tos 1) cu) (\<lambda>v cu.
     bnd (in_dp (push v) cu) (\<lambda>_ cu.
     bnd (latch_pc True cu) (\<lambda>_ cu.
     tick cu)))"

definition micro_swap :: "instr \<Rightarrow> control_unit \<Rightarrow> (unit, control_unit) result" where
  "micro_swap instr cu =
     bnd (in_dp (get_tos 0) cu) (\<lambda>v1 cu.
     bnd (in_dp (get_tos 1) cu) (\<lambda>v2 cu.
     bnd (in_dp (latch_head (-2)) cu) (\<lambda>_ cu.
     bnd (in_dp (push v1) cu) (\<lambda>_ cu.
     bnd (in_dp (push v2) cu) (\<lambda>_ cu.
     bnd (latch_pc True cu) (\<lambda>_ cu.
     tick cu))))))"

text \<open>\<^verbatim>\<open>instr["arg"]\<close> raises \<open>KeyError\<close> when the instruction has no argument.\<close>

definition micro_push :: "host \<Rightarrow> instr \<Rightarrow> control_unit \<Rightarrow> (unit, control_unit) result" where
  "micro_push h instr cu =
     (case arg instr of
        None \<Rightarrow> Raise KeyError cu
      | Some a \<Rightarrow>
          bnd (if is_number h a then int_arg h a cu else ord_arg a cu) (\<lambda>v cu.
          bnd (in_dp (push (Num v)) cu) (\<lambda>_ cu.
          bnd (latch_pc True cu) (\<lambda>_ cu.
          tick cu))))"

definition micro_drop :: "instr \<Rightarrow> control_unit \<Rightarrow> (unit, control_unit) result" where
  "micro_drop instr cu =
     bnd (in_dp (latch_head (-1)) cu) (\<lambda>_ cu.
     bnd (latch_pc True cu) (\<lambda>_ cu.
     tick cu))"

definition micro_jump :: "instr \<Rightarrow> control_unit \<Rightarrow> (unit, control_unit) result" where
  "micro_jump instr cu =
     (case arg instr of
        None \<Rightarrow> Raise KeyError cu
      | Some addr \<Rightarrow> tick (cu\<lparr>pc := addr\<rparr>))"

subsection \<open>Dispatch\<close>

text \<open>
  The dictionary \<^verbatim>\<open>handlers\<close> of \<^verbatim>\<open>execute_micro_operation\<close>: \<open>None\<close> for the two
  members of \<^verbatim>\<open>Opcode\<close> that are not among its keys.
\<close>

fun handlers :: "host \<Rightarrow> opcode \<Rightarrow> (instr \<Rightarrow> control_unit \<Rightarrow> (unit, control_unit) result) option" where
  "handlers h READ_DIR = Some (micro_read_direct h)"
| "handlers h READ_NDR = Some (micro_read_indirect h)"
| "handlers h WR_DIR = Some (micro_write_direct h)"
| "handlers h WR_NDR = Some (micro_write_indirect h)"
| "handlers h JNT = Some micro_jump_if_not_true"
| "handlers h HALT = Some micro_halt"
| "handlers h BEGIN = Some micro_no_operation"
| "handlers h NOP = Some micro_no_operation"
| "handlers h MOD = Some (micro_alu_operation h)"
| "handlers h PLUS = Some (micro_alu_operation h)"
| "handlers h MULT = Some (micro_alu_operation h)"
| "handlers h LT = Some (micro_alu_operation h)"
| "handlers h DIV = Some (micro_alu_operation h)"
| "handlers h POW = Some (micro_alu_operation h)"
| "handlers h NEG = Some (micro_alu_operation h)"
| "handlers h INV = Some (micro_alu_operation h)"
| "handlers h ROT = Some micro_rotate"
| "handlers h DUP = Some micro_duplicate"
| "handlers h OVER = Some micro_over"
| "handlers h SWAP = Some micro_swap"
| "handlers h PUSH = Some (micro_push h)"
| "handlers h DROP = Some micro_drop"
| "handlers h JMP = Some micro_jump"
| "handlers h MINUS = None"
| "handlers h PRINT = None"

text \<open>\<^verbatim>\<open>instr["opcode"]\<close> on a data word is a \<open>TypeError\<close>.\<close>

definition execute_micro_operation :: "host \<Rightarrow> cell \<Rightarrow> control_unit \<Rightarrow> (unit, control_unit) result" where
  "execute_micro_operation h instr cu =
     (case instr of
        Num _ \<Rightarrow> Raise TypeError cu
      | Flt _ \<Rightarrow> Raise TypeError cu
      | Ins i \<Rightarrow>
          (case handlers h (opcode i) of
             Some handler \<Rightarrow> handler i cu
           | None \<Rightarrow> Ok () cu))"

definition decode_and_execute :: "host \<Rightarrow> control_unit \<Rightarrow> (unit, control_unit) result" where
  "decode_and_execute h cu =
     bnd (in_mem (get_instruction (pc cu)) cu) (\<lambda>instr cu.
     execute_micro_operation h instr cu)"

section \<open>Simulation driver\<close>

text \<open>
  The loop of \<^verbatim>\<open>simulation\<close>: \<open>StopIteration\<close> ends the run with the state as the raise
  left it; every other exception leaves \<^verbatim>\<open>simulation\<close>.
\<close>

function simulation_loop :: "host \<Rightarrow> int \<Rightarrow> int \<Rightarrow> control_unit \<Rightarrow> exc + (int \<times> control_unit)" where
  "simulation_loop h limit instruct_counter cu =
     (if limit \<le> instruct_counter then Inr (instruct_counter, cu)
      else
        (case decode_and_execute h cu of
           Ok _ cu1 \<Rightarrow> simulation_loop h limit (instruct_counter + 1) cu1
         | Raise e cu1 \<Rightarrow>
             if e = StopIteration then Inr (instruct_counter, cu1) else Inl e))"
  by pat_completeness auto
termination
  by (relation "measure (\<lambda>(h, limit, instruct_counter, cu). nat (limit - instruct_counter))") auto

definition simulation ::
  "host \<Rightarrow> instr list \<Rightarrow> int \<Rightarrow> int \<Rightarrow> string list \<Rightarrow> int list \<Rightarrow> exc + (string list \<times> int \<times> int)" where
  "simulation h code data_memory_size limit input_buffer' data' =
     (case Memory_init data_memory_size code input_buffer' data' of
        Inl e \<Rightarrow> Inl e
      | Inr memory' \<Rightarrow>
          (case DataPath_init 256 of
             Inl e \<Rightarrow> Inl e
           | Inr data_path' \<Rightarrow>
               (case simulation_loop h limit 0 (ControlUnit_init data_path' memory') of
                  Inl e \<Rightarrow> Inl e
                | Inr (instruct_counter, control_unit') \<Rightarrow>
                    Inr (output_buffer (mem control_unit'), instruct_counter, cur_tick control_unit'))))"

section \<open>Runs and invariants\<close>

text \<open>
  \<open>steps h n cu\<close> executes \<open>n\<close> instructions from \<open>cu\<close>, one \<^verbatim>\<open>decode_and_execute\<close>
  after the other; it is \<open>Ok\<close> when none of them raised.
\<close>

fun steps :: "host \<Rightarrow> nat \<Rightarrow> control_unit \<Rightarrow> (unit, control_unit) result" where
  "steps h 0 cu = Ok () cu"
| "steps h (Suc n) cu = bnd (decode_and_execute h cu) (\<lambda>_ cu. steps h n cu)"

text \<open>
  The control unit that \<^verbatim>\<open>simulation\<close> constructs. The states that a run passes
  through between two instructions are the \<open>cu\<close> with \<open>steps h n cu0 = Ok () cu\<close> for
  this initial \<open>cu0\<close>.
\<close>

definition initial_unit :: "instr list \<Rightarrow> int \<Rightarrow> string list \<Rightarrow> int list \<Rightarrow> exc + control_unit" where
  "initial_unit code data_memory_size input_buffer' data' =
     (case Memory_init data_memory_size code input_buffer' data' of
        Inl e \<Rightarrow> Inl e
      | Inr memory' \<Rightarrow>
          (case DataPath_init 256 of
             Inl e \<Rightarrow> Inl e
           | Inr data_path' \<Rightarrow> Inr (ControlUnit_init data_path' memory')))"

text \<open>
  The operand stack is well formed: the array has its capacity, and the head is within
  it.
\<close>

definition dp_wf :: "data_path \<Rightarrow> bool" where
  "dp_wf dp \<longleftrightarrow>
     int (length (stack dp)) = dp_memory_size dp \<and> 0 \<le> head dp \<and> head dp < dp_memory_size dp"

text \<open>The stack of \<^verbatim>\<open>simulation\<close>, which has 256 cells.\<close>

definition stack_256 :: "data_path \<Rightarrow> bool" where
  "stack_256 dp \<longleftrightarrow> dp_wf dp \<and> dp_memory_size dp = 256"

text \<open>
  A method of the data path, or a micro-operation of the control unit, keeps a property
  \<open>I\<close> of the data path when every call that returns from a state with \<open>I\<close> leaves a
  state with \<open>I\<close>. \<open>stack_stable\<close>: the two methods that write to the stack and its
  head keep \<open>I\<close>.
\<close>

definition dp_keeps :: "(data_path \<Rightarrow> bool) \<Rightarrow> (data_path \<Rightarrow> ('a, data_path) result) \<Rightarrow> bool" where
  "dp_keeps I f \<longleftrightarrow> (\<forall>dp a d. I dp \<longrightarrow> f dp = Ok a d \<longrightarrow> I d)"

definition keeps :: "(data_path \<Rightarrow> bool) \<Rightarrow> (control_unit \<Rightarrow> ('a, control_unit) result) \<Rightarrow> bool" where
  "keeps I m \<longleftrightarrow> (\<forall>cu a cu'. I (data_path cu) \<longrightarrow> m cu = Ok a cu' \<longrightarrow> I (data_path cu'))"

definition stack_stable :: "(data_path \<Rightarrow> bool) \<Rightarrow> bool" where
  "stack_stable I \<longleftrightarrow> (\<forall>k. dp_keeps I (latch_head k)) \<and> (\<forall>v. dp_keeps I (push v))"

text \<open>
  The number of calls of \<^verbatim>\<open>tick\<close> in the micro-operation of each opcode (none for the
  opcodes without a handler, and none for \<^verbatim>\<open>HALT\<close>, which raises at once).
\<close>

definition op_ticks :: "opcode \<Rightarrow> int" where
  "op_ticks op =
     (if op = READ_NDR then 7
      else if op = WR_NDR then 6
      else if op \<in> {READ_DIR, WR_DIR, MOD, PLUS, MULT, LT, DIV, POW, NEG, INV} then 2
      else if op \<in> {MINUS, PRINT, HALT} then 0
      else 1)"

section \<open>Program files (isa.py)\<close>

text \<open>
  The values that \<^verbatim>\<open>write_code\<close> serialises and \<^verbatim>\<open>read_code\<close> returns: what
  \<^verbatim>\<open>json.loads\<close> builds from integers, strings, arrays and objects, and the \<^verbatim>\<open>Opcode\<close>
  members and \<^verbatim>\<open>Term\<close> tuples that \<^verbatim>\<open>read_code\<close> puts in their place. An object is the
  list of its keys and values.
\<close>

datatype pyobj =
    PInt int
  | PStr string
  | PList "pyobj list"
  | PDict "(string \<times> pyobj) list"
  | POpcode opcode
  | PTerm pyobj pyobj pyobj

text \<open>
  \<^verbatim>\<open>json.dumps(x, indent=4)\<close> and \<^verbatim>\<open>json.loads\<close> belong to Python's library, not to the
  repository: they are parameters here, \<open>loads\<close> giving \<open>None\<close> where \<^verbatim>\<open>json.loads\<close>
  raises \<open>JSONDecodeError\<close>.
\<close>

record json =
  dumps :: "pyobj \<Rightarrow> string"
  loads :: "string \<Rightarrow> pyobj option"

subsection \<open>The string methods used\<close>

fun starts_with :: "string \<Rightarrow> string \<Rightarrow> bool" where
  "starts_with [] s = True"
| "starts_with (p # ps) [] = False"
| "starts_with (p # ps) (c # cs) = (p = c \<and> starts_with ps cs)"

text \<open>\<^verbatim>\<open>sub in s\<close>.\<close>

fun contains :: "string \<Rightarrow> string \<Rightarrow> bool" where
  "contains sub [] = starts_with sub []"
| "contains sub (c # cs) = (starts_with sub (c # cs) \<or> contains sub cs)"

text \<open>
  \<^verbatim>\<open>s.split(sep)\<close> and \<^verbatim>\<open>s.replace(old, new)\<close> for a non-empty \<open>sep\<close> and \<open>old\<close> (the
  source passes literals): the occurrences are found from the left and do not overlap.
\<close>

function split_from :: "string \<Rightarrow> string \<Rightarrow> string \<Rightarrow> string list" where
  "split_from sep acc [] = [rev acc]"
| "split_from sep acc (c # cs) =
     (if starts_with sep (c # cs)
      then rev acc # split_from sep [] (drop (length sep - 1) cs)
      else split_from sep (c # acc) cs)"
  by pat_completeness auto
termination
  by (relation "measure (\<lambda>(sep, acc, s). length s)") auto

definition split :: "string \<Rightarrow> string \<Rightarrow> string list" where
  "split s sep = split_from sep [] s"

function replace :: "string \<Rightarrow> string \<Rightarrow> string \<Rightarrow> string" where
  "replace [] old new = []"
| "replace (c # cs) old new =
     (if starts_with old (c # cs)
      then new @ replace (drop (length old - 1) cs) old new
      else c # replace cs old new)"
  by pat_completeness auto
termination
  by (relation "measure (\<lambda>(s, old, new). length s)") auto

subsection \<open>Files\<close>

text \<open>
  A file opened for reading: its text and the position of the next read.
  \<^verbatim>\<open>file.read()\<close> returns the rest of the text and leaves the position at the end.
\<close>

record text_file =
  contents :: string
  position :: nat

definition file_read :: "text_file \<Rightarrow> string \<times> text_file" where
  "file_read f = (drop (position f) (contents f), f\<lparr>position := length (contents f)\<rparr>)"

subsection \<open>Writing and reading a program\<close>

text \<open>\<^verbatim>\<open>write_code\<close>: the text it leaves in the file.\<close>

definition write_code :: "json \<Rightarrow> pyobj \<Rightarrow> pyobj list \<Rightarrow> string" where
  "write_code j code data' =
     (if length data' \<noteq> 0
      then ''data: '' @ dumps j (PList data') @ ''\<newline>''
      else [])
     @ dumps j code"

text \<open>\<^verbatim>\<open>obj[key]\<close> for a string key, and \<^verbatim>\<open>obj[n]\<close> for an index \<open>n \<ge> 0\<close>.\<close>

fun subscript_key :: "pyobj \<Rightarrow> string \<Rightarrow> exc + pyobj" where
  "subscript_key (PDict kvs) key =
     (case map_of kvs key of None \<Rightarrow> Inl KeyError | Some v \<Rightarrow> Inr v)"
| "subscript_key _ key = Inl TypeError"

fun subscript_int :: "pyobj \<Rightarrow> nat \<Rightarrow> exc + pyobj" where
  "subscript_int (PList xs) n = (if n < length xs then Inr (xs ! n) else Inl IndexError)"
| "subscript_int (PStr s) n = (if n < length s then Inr (PStr [s ! n]) else Inl IndexError)"
| "subscript_int (POpcode op) n =
     (if n < length (opcode_value op) then Inr (PStr [opcode_value op ! n]) else Inl IndexError)"
| "subscript_int (PTerm a b c) n =
     (if n = 0 then Inr a else if n = 1 then Inr b else if n = 2 then Inr c else Inl IndexError)"
| "subscript_int (PDict kvs) n = Inl KeyError"
| "subscript_int (PInt i) n = Inl TypeError"

text \<open>\<^verbatim>\<open>instr[key] = v\<close> on an object that has the key.\<close>

definition set_key :: "(string \<times> pyobj) list \<Rightarrow> string \<Rightarrow> pyobj \<Rightarrow> (string \<times> pyobj) list" where
  "set_key kvs key v = map (\<lambda>(k, w). if k = key then (k, v) else (k, w)) kvs"

text \<open>\<^verbatim>\<open>Opcode(v)\<close>: the member whose value is \<open>v\<close>, or a \<open>ValueError\<close>.\<close>

definition opcodes :: "opcode list" where
  "opcodes =
     [WR_DIR, WR_NDR, READ_DIR, READ_NDR, PRINT, BEGIN, NOP, MOD, PLUS, MINUS, MULT, DIV, POW,
      LT, NEG, INV, DUP, OVER, ROT, SWAP, PUSH, DROP, JMP, JNT, HALT]"

fun Opcode_of :: "pyobj \<Rightarrow> exc + opcode" where
  "Opcode_of (PStr s) =
     (case find (\<lambda>op. opcode_value op = s) opcodes of
        None \<Rightarrow> Inl ValueError
      | Some op \<Rightarrow> Inr op)"
| "Opcode_of (POpcode op) = Inr op"
| "Opcode_of _ = Inl ValueError"

text \<open>The body of the loop of \<^verbatim>\<open>read_code\<close> on one instruction.\<close>

fun rehydrate_instr :: "pyobj \<Rightarrow> exc + pyobj" where
  "rehydrate_instr (PDict kvs) =
     (case subscript_key (PDict kvs) ''opcode'' of
        Inl e \<Rightarrow> Inl e
      | Inr v \<Rightarrow>
          (case Opcode_of v of
             Inl e \<Rightarrow> Inl e
           | Inr op \<Rightarrow>
               let kvs1 = set_key kvs ''opcode'' (POpcode op) in
               (case map_of kvs1 ''term'' of
                  None \<Rightarrow> Inr (PDict kvs1)
                | Some t \<Rightarrow>
                    (case subscript_int t 0 of
                       Inl e \<Rightarrow> Inl e
                     | Inr a \<Rightarrow>
                         (case subscript_int t 1 of
                            Inl e \<Rightarrow> Inl e
                          | Inr b \<Rightarrow>
                              (case subscript_int t 2 of
                                 Inl e \<Rightarrow> Inl e
                               | Inr c \<Rightarrow> Inr (PDict (set_key kvs1 ''term'' (PTerm a b c)))))))))"
| "rehydrate_instr _ = Inl TypeError"

fun rehydrate_list :: "pyobj list \<Rightarrow> exc + pyobj list" where
  "rehydrate_list [] = Inr []"
| "rehydrate_list (x # xs) =
     (case rehydrate_instr x of
        Inl e \<Rightarrow> Inl e
      | Inr y \<Rightarrow> (case rehydrate_list xs of Inl e \<Rightarrow> Inl e | Inr ys \<Rightarrow> Inr (y # ys)))"

text \<open>
  \<^verbatim>\<open>for instr in code\<close>: the loop over an array; over any other value that
  \<^verbatim>\<open>json.loads\<close> can give, the loop has nothing to do when the value is an empty
  string or object, and raises \<open>TypeError\<close> otherwise (its items are not objects, or
  the value is not iterable).
\<close>

fun rehydrate :: "pyobj \<Rightarrow> exc + pyobj" where
  "rehydrate (PList xs) =
     (case rehydrate_list xs of Inl e \<Rightarrow> Inl e | Inr ys \<Rightarrow> Inr (PList ys))"
| "rehydrate (PStr []) = Inr (PStr [])"
| "rehydrate (PDict []) = Inr (PDict [])"
| "rehydrate _ = Inl TypeError"

text \<open>
  \<^verbatim>\<open>read_code\<close> on a file with the text \<open>text\<close>; \<^verbatim>\<open>split_content[0]\<close> and
  \<^verbatim>\<open>split_content[1]\<close> raise \<open>IndexError\<close> on a list too short. In the branch without a
  data segment
  the file is read a second time, and \<^verbatim>\<open>data\<close> is never assigned, so the
  \<^verbatim>\<open>return code, data\<close> raises \<open>UnboundLocalError\<close> if the loop is passed.
\<close>

definition read_code :: "json \<Rightarrow> string \<Rightarrow> exc + (pyobj \<times> pyobj)" where
  "read_code j text =
     (let (full, f1) = file_read \<lparr>contents = text, position = 0\<rparr> in
      if contains ''data'' full then
        let split_content = split full '']\<newline>['' in
        (case split_content of
           [] \<Rightarrow> Inl IndexError
         | part0 # parts \<Rightarrow>
             let data_part = replace part0 ''data: '' [] @ '']'' in
             (case parts of
                [] \<Rightarrow> Inl IndexError
              | part1 # _ \<Rightarrow>
                  let code_part = ''['' @ part1 in
                  (case loads j data_part of
                     None \<Rightarrow> Inl JSONDecodeError
                   | Some data' \<Rightarrow>
                       (case loads j code_part of
                          None \<Rightarrow> Inl JSONDecodeError
                        | Some code \<Rightarrow>
                            (case rehydrate code of
                               Inl e \<Rightarrow> Inl e
                             | Inr code' \<Rightarrow> Inr (code', data'))))))
      else
        let (rest, f2) = file_read f1 in
        (case loads j rest of
           None \<Rightarrow> Inl JSONDecodeError
         | Some code \<Rightarrow>
             (case rehydrate code of
                Inl e \<Rightarrow> Inl e
              | Inr code' \<Rightarrow> Inl UnboundLocalError)))"

section \<open>Example programs and states\<close>

text \<open>Concrete instructions, programs and machine states on which the theorems are run.\<close>

definition halt_instr :: instr where
  "halt_instr = \<lparr>opcode = HALT, arg = None, instr_term = None\<rparr>"

definition nop_instr :: instr where
  "nop_instr = \<lparr>opcode = NOP, arg = None, instr_term = None\<rparr>"

text \<open>A memory of 131 words: three data words, and a program of two instructions.\<close>

definition small_memory :: memory where
  "small_memory = projr (Memory_init 131 [halt_instr, nop_instr] [] [7, 8, 9])"

text \<open>
  A host in which \<^verbatim>\<open>is_number\<close> holds of the integers, \<^verbatim>\<open>int\<close> reads no string, and the
  floating-point operations are exact. They are Python's where the exact result is a
  double, as for the floats of the examples below: \<^verbatim>\<open>2 ** -1\<close> is \<^verbatim>\<open>0.5\<close> and
  \<^verbatim>\<open>(-2) ** -1\<close> is \<^verbatim>\<open>-0.5\<close>, the one float that the examples print.
\<close>

definition plain_host :: host where
  "plain_host =
     \<lparr>is_number = (\<lambda>a. case a of PyInt _ \<Rightarrow> True | PyStr _ \<Rightarrow> False),
      int_of_str = (\<lambda>_. None),
      float_pow = (\<lambda>a b. 1 / of_int (a ^ nat (- b))),
      float_inc = (\<lambda>f. f + 1),
      float_str = (\<lambda>f. if f = - (1 / 2) then ''-0.5'' else [])\<rparr>"

text \<open>
  The machine of \<^verbatim>\<open>main\<close> (600 words of memory, a stack of 256) about to execute the
  first instruction of \<open>program\<close>, with the data segment \<open>D\<close>, the cells \<open>st\<close> on the
  operand stack (the last one on top) and \<open>a\<close> in the accumulator.
\<close>

definition machine_at :: "instr list \<Rightarrow> int list \<Rightarrow> cell list \<Rightarrow> int \<Rightarrow> control_unit" where
  "machine_at program D st a =
     \<lparr>data_path =
        \<lparr>stack = st @ replicate (256 - length st) (Num 0),
         head = int (length st),
         dp_memory_size = 256,
         alu = Num a\<rparr>,
      mem =
        \<lparr>data_address = Num 0,
         memory_size = 600,
         data = map Num D @ replicate (600 - length program - length D) (Num 0) @ map Ins program,
         program_start = 600 - int (length program),
         program_len = int (length program),
         input_buffer = [],
         output_buffer = []\<rparr>,
      pc = PyInt 0,
      cu_tick = 0\<rparr>"

definition op_instr :: "opcode \<Rightarrow> instr" where
  "op_instr op = \<lparr>opcode = op, arg = None, instr_term = None\<rparr>"

text \<open>\<^verbatim>\<open>ROT\<close> on the stack 1, 2, 3 (3 on top), and the state it leaves.\<close>

definition rot_example :: control_unit where
  "rot_example = machine_at [op_instr ROT] [] [Num 1, Num 2, Num 3] 0"

definition rot_example_after :: control_unit where
  "rot_example_after = state_of (decode_and_execute plain_host rot_example)"

text \<open>A program that jumps to itself, and a program that drops from the empty stack.\<close>

definition jmp_self :: instr where
  "jmp_self = \<lparr>opcode = JMP, arg = Some (PyInt 0), instr_term = None\<rparr>"

definition push_5 :: instr where
  "push_5 = \<lparr>opcode = PUSH, arg = Some (PyInt 5), instr_term = None\<rparr>"

text \<open>The machine of \<^verbatim>\<open>main\<close> loaded with the self-jump.\<close>

definition self_jump_unit :: control_unit where
  "self_jump_unit = machine_at [jmp_self] [] [] 0"

definition drop_program :: "instr list" where
  "drop_program = [op_instr DROP]"

text \<open>A program that pushes 5 and halts: its initial state, and the state after the push.\<close>

definition push_program :: "instr list" where
  "push_program = [push_5, op_instr HALT]"

definition push_start :: control_unit where
  "push_start = machine_at push_program [] [] 0"

definition push_done :: control_unit where
  "push_done = state_of (decode_and_execute plain_host push_start)"

text \<open>
  States for the arithmetic instructions: \<^verbatim>\<open>INVERT\<close> on the stack 9, 5; \<^verbatim>\<open>POW\<close> on the
  stack 3, 2 and on the stack -1, 0; \<^verbatim>\<open>DIV\<close> on the stack 10, 2 with 7 in the
  accumulator; and a state about to execute \<^verbatim>\<open>MINUS\<close>.
\<close>

definition invert_example :: control_unit where
  "invert_example = machine_at [op_instr INV] [] [Num 9, Num 5] 0"

definition pow_example :: control_unit where
  "pow_example = machine_at [op_instr POW] [] [Num 3, Num 2] 0"

definition pow_zero_example :: control_unit where
  "pow_zero_example = machine_at [op_instr POW] [] [Num (- 1), Num 0] 0"

text \<open>
  \<^verbatim>\<open>INVERT\<close> with the float \<^verbatim>\<open>0.5\<close> on top, and with an instruction word on top; \<^verbatim>\<open>POW\<close> on
  the stack -1, 2 (\<^verbatim>\<open>2 ** -1\<close>), with the base \<open>2 ^ 1024\<close>, which is beyond the floats,
  with the float \<^verbatim>\<open>0.5\<close> as base, and with an instruction word as base. Each of the two
  that return comes with the state it leaves.
\<close>

definition invert_float_example :: control_unit where
  "invert_float_example = machine_at [op_instr INV] [] [Num 9, Flt (1 / 2)] 0"

definition invert_float_after :: control_unit where
  "invert_float_after = state_of (decode_and_execute plain_host invert_float_example)"

definition invert_word_example :: control_unit where
  "invert_word_example = machine_at [op_instr INV] [] [Num 9, Ins halt_instr] 0"

definition pow_float_example :: control_unit where
  "pow_float_example = machine_at [op_instr POW] [] [Num (- 1), Num 2] 0"

definition pow_big_example :: control_unit where
  "pow_big_example = machine_at [op_instr POW] [] [Num (- 1), Num (2 ^ 1024)] 0"

definition pow_trunc_example :: control_unit where
  "pow_trunc_example = machine_at [op_instr POW] [] [Num 2, Flt (1 / 2)] 0"

definition pow_trunc_after :: control_unit where
  "pow_trunc_after = state_of (decode_and_execute plain_host pow_trunc_example)"

definition pow_word_example :: control_unit where
  "pow_word_example = machine_at [op_instr POW] [] [Num 2, Ins halt_instr] 0"

definition div_example :: control_unit where
  "div_example = machine_at [op_instr DIV] [] [Num 10, Num 2] 7"

definition minus_example :: control_unit where
  "minus_example = machine_at [op_instr MINUS] [] [Num 10, Num 2] 0"

text \<open>
  States for the indirect accesses. Address 2 holds the pointer 3. \<^verbatim>\<open>READ_NDR\<close> with the
  address 2 on the stack reads the word at address 3; \<^verbatim>\<open>WRITE_NDR\<close> with 99 and the
  address 2 on the stack writes 99 to address 3. Each comes with the state it leaves.
\<close>

definition read_ndr_example :: control_unit where
  "read_ndr_example = machine_at [op_instr READ_NDR] [0, 0, 3, 42] [Num 2] 0"

definition read_ndr_after :: control_unit where
  "read_ndr_after = state_of (decode_and_execute plain_host read_ndr_example)"

definition write_ndr_example :: control_unit where
  "write_ndr_example = machine_at [op_instr WR_NDR] [0, 0, 3, 0] [Num 99, Num 2] 0"

definition write_ndr_after :: control_unit where
  "write_ndr_after = state_of (decode_and_execute plain_host write_ndr_example)"

text \<open>
  The program \<^verbatim>\<open>[{"opcode": Opcode.HALT}]\<close>, the text that \<^verbatim>\<open>json.dumps(code, indent=4)\<close>
  writes for it, and a \<^verbatim>\<open>json\<close> that encodes this one program and decodes this one text.
\<close>

definition halt_code :: pyobj where
  "halt_code = PList [PDict [(''opcode'', POpcode HALT)]]"

definition halt_text :: string where
  \<open>halt_text = ''[\<newline>    {\<newline>        "opcode": "HALT"\<newline>    }\<newline>]''\<close>

definition halt_json :: json where
  "halt_json =
     \<lparr>dumps = (\<lambda>v. if v = halt_code then halt_text else ''null''),
      loads = (\<lambda>s. if s = halt_text then Some (PList [PDict [(''opcode'', PStr ''HALT'')]])
                   else None)\<rparr>"

text \<open>
  Whole programs for \<^verbatim>\<open>simulation\<close>. \<open>print_top\<close> writes the top of the stack to the
  output port (address 1); a value above 127 is written in decimal.
\<close>

definition push_int :: "int \<Rightarrow> instr" where
  "push_int n = \<lparr>opcode = PUSH, arg = Some (PyInt n), instr_term = None\<rparr>"

definition print_top :: "instr list" where
  "print_top = [push_int 1, op_instr WR_DIR]"

definition rot_program :: "instr list" where
  "rot_program =
     [push_int 201, push_int 202, push_int 203, op_instr ROT]
     @ print_top @ print_top @ print_top @ [op_instr HALT]"

definition invert_program :: "instr list" where
  "invert_program = [push_int 900, push_int 300, op_instr INV] @ print_top @ print_top @ [op_instr HALT]"

definition pow_program :: "instr list" where
  "pow_program = [push_int 5, push_int 3, op_instr POW] @ print_top @ [op_instr HALT]"

definition pow_zero_program :: "instr list" where
  "pow_zero_program = [push_int (- 1), push_int 0, op_instr POW, op_instr HALT]"

text \<open>
  Programs that bring a float and an instruction word to the top of the stack:
  \<^verbatim>\<open>2 ** -1\<close> is \<^verbatim>\<open>0.5\<close>, and address 599 holds the last instruction of a program in
  the 600 words of memory.
\<close>

definition invert_float_program :: "instr list" where
  "invert_float_program =
     [push_int (- 1), push_int 2, op_instr POW, op_instr INV] @ print_top @ [op_instr HALT]"

definition invert_word_program :: "instr list" where
  "invert_word_program = [push_int 599, op_instr READ_DIR, op_instr INV, op_instr HALT]"

definition pow_float_program :: "instr list" where
  "pow_float_program = [push_int (- 1), push_int (- 2), op_instr POW] @ print_top @ [op_instr HALT]"

definition pow_trunc_program :: "instr list" where
  "pow_trunc_program =
     [push_int 2, push_int (- 1), push_int 2, op_instr POW, op_instr POW]
     @ print_top @ [op_instr HALT]"

definition div_program :: "instr list" where
  "div_program =
     [push_int 300, push_int 400, op_instr PLUS, push_int 10, push_int 2, op_instr DIV]
     @ print_top @ [op_instr HALT]"

definition minus_program :: "instr list" where
  "minus_program = [op_instr MINUS, op_instr HALT]"

definition read_ndr_program :: "instr list" where
  "read_ndr_program = [push_int 2, op_instr READ_NDR, op_instr HALT]"

definition write_ndr_program :: "instr list" where
  "write_ndr_program = [push_int 99, push_int 2, op_instr WR_NDR, op_instr HALT]"

definition push_char :: "char \<Rightarrow> instr" where
  "push_char c = \<lparr>opcode = PUSH, arg = Some (PyStr [c]), instr_term = None\<rparr>"

definition echo_program :: "instr list" where
  "echo_program = [push_int 0, op_instr READ_DIR] @ print_top @ [op_instr HALT]"

definition jump_if_not :: "int \<Rightarrow> instr" where
  "jump_if_not n = \<lparr>opcode = JNT, arg = Some (PyInt n), instr_term = None\<rparr>"

section \<open>Basic facts\<close>

lemma py_index_nonneg:
  "0 \<le> i \<Longrightarrow> py_index xs i = (if i < int (length xs) then Some (xs ! nat i) else None)"
  by (simp add: py_index_def Let_def)

lemma small_memory_init:
  "Memory_init 131 [halt_instr, nop_instr] [] [7, 8, 9] = Inr small_memory"
  by (simp add: small_memory_def Memory_init_def)

lemma float_fits_small: "\<bar>n\<bar> \<le> 2 ^ 64 \<Longrightarrow> float_fits n"
proof -
  have "(2::int) ^ 64 < 2 ^ 1024 - 2 ^ 970" by simp
  then show "\<bar>n\<bar> \<le> 2 ^ 64 \<Longrightarrow> float_fits n" unfolding float_fits_def by linarith
qed

lemma float_int_of_int: "float_int (of_int n) = n"
  by (simp add: float_int_def)

lemma float_int_halves:
  "float_int (1 / 2) = 0" "float_int (- (1 / 2)) = 0" "float_int (- (3 / 2)) = - 1"
  by (simp_all add: float_int_def floor_eq_iff ceiling_eq_iff)

lemma bnd_Ok [simp]: "bnd (Ok a s) f = f a s"
  by (simp add: bnd_def)

lemma bnd_Raise [simp]: "bnd (Raise e s) f = Raise e s"
  by (simp add: bnd_def)

lemma bnd_OkE:
  assumes "bnd r f = Ok b s'"
  obtains a s1 where "r = Ok a s1" and "f a s1 = Ok b s'"
  using assms by (cases r) simp_all

subsection \<open>What a successful call has done\<close>

lemma get_tos_OkD:
  "get_tos k dp = Ok v d \<Longrightarrow>
   d = dp \<and> 0 \<le> k \<and> k \<le> 3 \<and> k < head dp \<and> py_index (stack dp) (head dp - k - 1) = Some v"
  by (auto simp: get_tos_def split: if_splits option.splits)

lemma latch_head_OkD:
  "latch_head k dp = Ok u d \<Longrightarrow>
   d = dp\<lparr>head := head dp + k\<rparr> \<and> 0 \<le> head dp + k \<and> head dp + k < dp_memory_size dp"
  by (auto simp: latch_head_def Let_def split: if_splits)

lemma py_set_length: "py_set xs i v = Some ys \<Longrightarrow> length ys = length xs"
  by (auto simp: py_set_def Let_def split: if_splits)

lemma push_OkD:
  "push v dp = Ok u d \<Longrightarrow>
   \<exists>st. py_set (stack dp) (head dp) v = Some st \<and> d = dp\<lparr>stack := st, head := head dp + 1\<rparr>
     \<and> 0 \<le> head dp + 1 \<and> head dp + 1 < dp_memory_size dp"
  by (auto simp: push_def split: option.splits dest!: latch_head_OkD)

lemma py_int_OkD: "py_int c s = Ok v s' \<Longrightarrow> s' = s \<and> int_of c = Some v"
  by (auto simp: py_int_def split: option.splits)

lemma py_inc_OkD: "py_inc h c s = Ok v s' \<Longrightarrow> s' = s"
  by (auto simp: py_inc_def split: cell.splits)

lemma oe_stack_OkD: "oe_stack h k sel dp = Ok v d \<Longrightarrow> d = dp"
  by (auto simp: oe_stack_def split: if_splits elim!: bnd_OkE dest!: get_tos_OkD py_inc_OkD)

lemma is_true_OkD:
  "is_true dp = Ok r d \<Longrightarrow>
   d = dp\<lparr>head := head dp - 1\<rparr> \<and> 0 \<le> head dp - 1 \<and> head dp - 1 < dp_memory_size dp"
  by (auto simp: is_true_def Let_def elim!: bnd_OkE dest!: get_tos_OkD latch_head_OkD)

lemma tos_int_OkD: "tos_int k dp = Ok v d \<Longrightarrow> d = dp"
  by (auto simp: tos_int_def elim!: bnd_OkE dest!: py_int_OkD get_tos_OkD)

lemma tos_int_run: "get_tos k dp = Ok c dp \<Longrightarrow> int_of c = Some v \<Longrightarrow> tos_int k dp = Ok v dp"
  by (simp add: tos_int_def py_int_def)

lemma tos_int_raise:
  "get_tos k dp = Ok c dp \<Longrightarrow> int_of c = None \<Longrightarrow> tos_int k dp = Raise TypeError dp"
  by (simp add: tos_int_def py_int_def)

lemma latch_alu_OkD: "latch_alu h op dp = Ok u d \<Longrightarrow> \<exists>a. d = dp\<lparr>alu := a\<rparr>"
  by (cases op) (auto elim!: bnd_OkE dest!: tos_int_OkD split: if_splits intro: exI[of _ "alu dp"])

lemma in_dp_OkD:
  "in_dp f cu = Ok a cu' \<Longrightarrow> \<exists>d. f (data_path cu) = Ok a d \<and> cu' = cu\<lparr>data_path := d\<rparr>"
  by (auto simp: in_dp_def split: result.splits)

lemma in_mem_OkD:
  "in_mem f cu = Ok a cu' \<Longrightarrow> \<exists>m. f (mem cu) = Ok a m \<and> cu' = cu\<lparr>mem := m\<rparr>"
  by (auto simp: in_mem_def split: result.splits)

lemma tick_OkD: "tick cu = Ok u cu' \<Longrightarrow> cu' = cu\<lparr>cu_tick := cu_tick cu + 1\<rparr>"
  by (auto simp: tick_def)

lemma get_instruction_OkD: "get_instruction p m = Ok v m' \<Longrightarrow> m' = m"
  by (auto simp: get_instruction_def split: pyval.splits if_splits option.splits)

lemma latch_pc_OkD:
  "latch_pc sel cu = Ok u cu' \<Longrightarrow>
   \<exists>v. cu' = cu\<lparr>pc := v\<rparr> \<and> (sel \<longrightarrow> (\<exists>p. pc cu = PyInt p \<and> v = PyInt (p + 1)))"
  by (auto simp: latch_pc_def split: if_splits pyval.splits cell.splits option.splits
      elim!: bnd_OkE dest!: in_mem_OkD get_instruction_OkD)

lemmas prim_OkD = in_dp_OkD in_mem_OkD tick_OkD latch_pc_OkD

lemmas dp_OkD = get_tos_OkD latch_head_OkD push_OkD oe_stack_OkD is_true_OkD

subsection \<open>Calls that succeed\<close>

lemma get_tos_run:
  "0 \<le> k \<Longrightarrow> k \<le> 3 \<Longrightarrow> k < head dp \<Longrightarrow> head dp \<le> int (length (stack dp)) \<Longrightarrow>
   get_tos k dp = Ok (stack dp ! nat (head dp - k - 1)) dp"
  by (simp add: get_tos_def py_index_def Let_def)

lemma latch_head_run:
  "d \<in> {-1, -3, 1, -2} \<Longrightarrow> 0 \<le> head dp + d \<Longrightarrow> head dp + d < dp_memory_size dp \<Longrightarrow>
   latch_head d dp = Ok () (dp\<lparr>head := head dp + d\<rparr>)"
  by (simp add: latch_head_def Let_def)

lemma push_run:
  "0 \<le> head dp \<Longrightarrow> head dp < int (length (stack dp)) \<Longrightarrow> head dp + 1 < dp_memory_size dp \<Longrightarrow>
   push v dp = Ok () (dp\<lparr>stack := (stack dp)[nat (head dp) := v], head := head dp + 1\<rparr>)"
  by (simp add: push_def py_set_def Let_def latch_head_def)

lemma in_dp_run: "f (data_path cu) = Ok a d \<Longrightarrow> in_dp f cu = Ok a (cu\<lparr>data_path := d\<rparr>)"
  by (simp add: in_dp_def)

lemma in_mem_run: "f (mem cu) = Ok a m \<Longrightarrow> in_mem f cu = Ok a (cu\<lparr>mem := m\<rparr>)"
  by (simp add: in_mem_def)

lemma latch_pc_next:
  "pc cu = PyInt p \<Longrightarrow> latch_pc True cu = Ok () (cu\<lparr>pc := PyInt (p + 1)\<rparr>)"
  by (simp add: latch_pc_def)

lemma fetch_pc_int: "get_instruction v m = Ok c m' \<Longrightarrow> \<exists>p. v = PyInt p"
  by (cases v) (simp_all add: get_instruction_def)

lemma decode_fetched:
  "get_instruction (pc cu) (mem cu) = Ok (Ins i) m \<Longrightarrow>
   decode_and_execute h cu = execute_micro_operation h (Ins i) cu"
  by (auto simp: decode_and_execute_def in_mem_def dest: get_instruction_OkD)

text \<open>The definitions a concrete run unfolds.\<close>

lemmas run_defs = decode_and_execute_def execute_micro_operation_def
  in_mem_def in_dp_def get_instruction_def get_tos_def latch_head_def push_def
  py_index_def py_set_def latch_pc_def tick_def oe_stack_def is_true_def tos_int_def py_int_def
  py_inc_def Memory_read_def Memory_write_def latch_data_address_def data_get_def data_put_def
  machine_at_def op_instr_def plain_host_def nth_append Let_def float_fits_small float_int_halves

subsection \<open>The micro-operations on a well-formed stack\<close>

lemma micro_rotate_run:
  assumes wf: "dp_wf (data_path cu)" and d: "3 \<le> head (data_path cu)" and p: "pc cu = PyInt p"
  shows "micro_rotate i cu = Ok ()
    (cu\<lparr>data_path := (data_path cu)\<lparr>stack := (stack (data_path cu))
          [nat (head (data_path cu) - 3) := stack (data_path cu) ! nat (head (data_path cu) - 2),
           nat (head (data_path cu) - 2) := stack (data_path cu) ! nat (head (data_path cu) - 1),
           nat (head (data_path cu) - 1) := stack (data_path cu) ! nat (head (data_path cu) - 3)]\<rparr>,
        pc := PyInt (p + 1), cu_tick := cu_tick cu + 1\<rparr>)"
  using assms unfolding micro_rotate_def dp_wf_def
  by (simp add: get_tos_run latch_head_run push_run in_dp_run latch_pc_next tick_def)

lemma micro_alu_run:
  assumes wf: "dp_wf (data_path cu)" and p: "pc cu = PyInt p"
    and latch: "latch_alu h (opcode i) (data_path cu) = Ok () ((data_path cu)\<lparr>alu := a\<rparr>)"
    and k: "k = (if opcode i \<in> {NEG, INV} then 1 else 2)"
    and depth: "k \<le> head (data_path cu)"
  shows "micro_alu_operation h i cu = Ok ()
    (cu\<lparr>data_path := (data_path cu)
          \<lparr>alu := a,
           stack := (stack (data_path cu))[nat (head (data_path cu) - k) := a],
           head := head (data_path cu) - k + 1\<rparr>,
        pc := PyInt (p + 1), cu_tick := cu_tick cu + 2\<rparr>)"
  using assms unfolding micro_alu_operation_def dp_wf_def
  by (auto simp: get_tos_run latch_head_run push_run in_dp_run latch_pc_next tick_def)

subsection \<open>Properties that the micro-operations keep\<close>

lemma int_arg_OkD: "int_arg h a s = Ok v s' \<Longrightarrow> s' = s"
  by (auto simp: int_arg_def split: pyval.splits option.splits)

lemma ord_arg_OkD: "ord_arg a s = Ok v s' \<Longrightarrow> s' = s"
  by (auto simp: ord_arg_def split: pyval.splits list.splits)

lemma keepsI:
  "(\<And>cu a cu'. I (data_path cu) \<Longrightarrow> m cu = Ok a cu' \<Longrightarrow> I (data_path cu')) \<Longrightarrow> keeps I m"
  unfolding keeps_def by blast

lemma keepsD: "keeps I m \<Longrightarrow> I (data_path cu) \<Longrightarrow> m cu = Ok a cu' \<Longrightarrow> I (data_path cu')"
  unfolding keeps_def by blast

lemma dp_keepsI: "(\<And>dp a d. I dp \<Longrightarrow> f dp = Ok a d \<Longrightarrow> I d) \<Longrightarrow> dp_keeps I f"
  unfolding dp_keeps_def by blast

lemma dp_keepsD: "dp_keeps I f \<Longrightarrow> I dp \<Longrightarrow> f dp = Ok a d \<Longrightarrow> I d"
  unfolding dp_keeps_def by blast

lemma keeps_bnd:
  assumes m: "keeps I m" and f: "\<And>a. keeps I (f a)"
  shows "keeps I (\<lambda>cu. bnd (m cu) f)"
proof (rule keepsI)
  fix cu b cu''
  assume I: "I (data_path cu)" and run: "bnd (m cu) f = Ok b cu''"
  from run obtain a cu' where 1: "m cu = Ok a cu'" and 2: "f a cu' = Ok b cu''"
    by (rule bnd_OkE)
  from m I 1 have "I (data_path cu')" by (rule keepsD)
  with f show "I (data_path cu'')" using 2 by (rule keepsD)
qed

lemma keeps_in_dp:
  assumes "\<And>c. dp_keeps I (f c)"
  shows "keeps I (\<lambda>cu. in_dp (f cu) cu)"
proof (rule keepsI)
  fix cu a cu'
  assume I: "I (data_path cu)" and run: "in_dp (f cu) cu = Ok a cu'"
  from in_dp_OkD [OF run] obtain d where 1: "f cu (data_path cu) = Ok a d"
    and 2: "cu' = cu\<lparr>data_path := d\<rparr>" by blast
  from assms I 1 have "I d" by (rule dp_keepsD)
  with 2 show "I (data_path cu')" by simp
qed

lemma keeps_in_mem: "keeps I (\<lambda>cu. in_mem (f cu) cu)"
proof (rule keepsI)
  fix cu a cu'
  assume I: "I (data_path cu)" and run: "in_mem (f cu) cu = Ok a cu'"
  from in_mem_OkD [OF run] obtain m where "cu' = cu\<lparr>mem := m\<rparr>" by blast
  with I show "I (data_path cu')" by simp
qed

lemma keeps_tick: "keeps I tick"
proof (rule keepsI)
  fix cu a cu'
  assume I: "I (data_path cu)" and run: "tick cu = Ok a cu'"
  from tick_OkD [OF run] I show "I (data_path cu')" by simp
qed

lemma keeps_tick_pc: "keeps I (\<lambda>cu. tick (cu\<lparr>pc := v\<rparr>))"
proof (rule keepsI)
  fix cu a cu'
  assume I: "I (data_path cu)" and run: "tick (cu\<lparr>pc := v\<rparr>) = Ok a cu'"
  from tick_OkD [OF run] I show "I (data_path cu')" by simp
qed

lemma keeps_latch_pc: "keeps I (latch_pc b)"
proof (rule keepsI)
  fix cu a cu'
  assume I: "I (data_path cu)" and run: "latch_pc b cu = Ok a cu'"
  from latch_pc_OkD [OF run] obtain v where "cu' = cu\<lparr>pc := v\<rparr>" by blast
  with I show "I (data_path cu')" by simp
qed

lemma keeps_Raise: "keeps I (Raise e)"
  by (rule keepsI) simp

lemma keeps_Ok: "keeps I (Ok a)"
  by (rule keepsI) simp

lemma keeps_if: "keeps I m1 \<Longrightarrow> keeps I m2 \<Longrightarrow> keeps I (\<lambda>cu. if b then m1 cu else m2 cu)"
  by (cases b) simp_all

lemma keeps_case_option:
  "keeps I m1 \<Longrightarrow> (\<And>a. keeps I (m2 a)) \<Longrightarrow>
   keeps I (\<lambda>cu. case x of None \<Rightarrow> m1 cu | Some a \<Rightarrow> m2 a cu)"
  by (cases x) simp_all

lemma keeps_int_arg: "keeps I (int_arg h a)"
proof (rule keepsI)
  fix cu b cu'
  assume I: "I (data_path cu)" and run: "int_arg h a cu = Ok b cu'"
  from int_arg_OkD [OF run] I show "I (data_path cu')" by simp
qed

lemma keeps_ord_arg: "keeps I (ord_arg a)"
proof (rule keepsI)
  fix cu b cu'
  assume I: "I (data_path cu)" and run: "ord_arg a cu = Ok b cu'"
  from ord_arg_OkD [OF run] I show "I (data_path cu')" by simp
qed

lemma dp_keeps_get_tos: "dp_keeps I (get_tos k)"
proof (rule dp_keepsI)
  fix dp a d
  assume I: "I dp" and run: "get_tos k dp = Ok a d"
  from get_tos_OkD [OF run] I show "I d" by simp
qed

lemma dp_keeps_oe_stack: "dp_keeps I (oe_stack h k sel)"
proof (rule dp_keepsI)
  fix dp a d
  assume I: "I dp" and run: "oe_stack h k sel dp = Ok a d"
  from oe_stack_OkD [OF run] I show "I d" by simp
qed

lemma dp_keeps_latch_head: "stack_stable I \<Longrightarrow> dp_keeps I (latch_head k)"
  by (simp add: stack_stable_def)

lemma dp_keeps_push: "stack_stable I \<Longrightarrow> dp_keeps I (push v)"
  by (simp add: stack_stable_def)

lemma dp_keeps_is_true:
  assumes "stack_stable I"
  shows "dp_keeps I is_true"
proof (rule dp_keepsI)
  fix dp a d
  assume I: "I dp" and run: "is_true dp = Ok a d"
  from run obtain t d1 where 1: "get_tos 0 dp = Ok t d1"
    and 2: "bnd (latch_head (- 1) d1) (\<lambda>_ dp. Ok (if py_eq t (- 1) then - 1 else 0) dp) = Ok a d"
    unfolding is_true_def Let_def by (rule bnd_OkE)
  from get_tos_OkD [OF 1] have d1: "d1 = dp" by simp
  from 2 obtain u d2 where 3: "latch_head (- 1) d1 = Ok u d2"
    and 4: "Ok (if py_eq t (- 1) then - 1 else 0) d2 = Ok a d"
    by (rule bnd_OkE)
  from dp_keeps_latch_head [OF assms] I 3 [unfolded d1] have "I d2" by (rule dp_keepsD)
  with 4 show "I d" by simp
qed

lemmas keeps_intros = keeps_bnd keeps_in_dp keeps_in_mem keeps_tick keeps_tick_pc keeps_latch_pc
  keeps_Raise keeps_Ok keeps_if keeps_case_option keeps_int_arg keeps_ord_arg
  dp_keeps_get_tos dp_keeps_oe_stack dp_keeps_latch_head dp_keeps_push dp_keeps_is_true

lemma keeps_read_direct: "stack_stable I \<Longrightarrow> keeps I (micro_read_direct h i)"
  unfolding micro_read_direct_def [abs_def] by (intro keeps_intros)

lemma keeps_read_indirect: "stack_stable I \<Longrightarrow> keeps I (micro_read_indirect h i)"
  unfolding micro_read_indirect_def [abs_def] by (intro keeps_intros)

lemma keeps_write_direct: "stack_stable I \<Longrightarrow> keeps I (micro_write_direct h i)"
  unfolding micro_write_direct_def [abs_def] by (intro keeps_intros)

lemma keeps_write_indirect: "stack_stable I \<Longrightarrow> keeps I (micro_write_indirect h i)"
  unfolding micro_write_indirect_def [abs_def] by (intro keeps_intros)

lemma keeps_jump_if_not_true: "stack_stable I \<Longrightarrow> keeps I (micro_jump_if_not_true i)"
  unfolding micro_jump_if_not_true_def [abs_def] by (intro keeps_intros)

lemma keeps_halt: "keeps I (micro_halt i)"
  unfolding micro_halt_def [abs_def] by (intro keeps_intros)

lemma keeps_no_operation: "keeps I (micro_no_operation i)"
  unfolding micro_no_operation_def [abs_def] by (intro keeps_intros)

lemma keeps_alu_operation:
  "stack_stable I \<Longrightarrow> dp_keeps I (latch_alu h (opcode i)) \<Longrightarrow> keeps I (micro_alu_operation h i)"
  unfolding micro_alu_operation_def [abs_def] by (intro keeps_intros)

lemma keeps_rotate: "stack_stable I \<Longrightarrow> keeps I (micro_rotate i)"
  unfolding micro_rotate_def [abs_def] by (intro keeps_intros)

lemma keeps_duplicate: "stack_stable I \<Longrightarrow> keeps I (micro_duplicate i)"
  unfolding micro_duplicate_def [abs_def] by (intro keeps_intros)

lemma keeps_over: "stack_stable I \<Longrightarrow> keeps I (micro_over i)"
  unfolding micro_over_def [abs_def] by (intro keeps_intros)

lemma keeps_swap: "stack_stable I \<Longrightarrow> keeps I (micro_swap i)"
  unfolding micro_swap_def [abs_def] by (intro keeps_intros)

lemma keeps_push: "stack_stable I \<Longrightarrow> keeps I (micro_push h i)"
  unfolding micro_push_def [abs_def] by (intro keeps_intros)

lemma keeps_drop: "stack_stable I \<Longrightarrow> keeps I (micro_drop i)"
  unfolding micro_drop_def [abs_def] by (intro keeps_intros)

lemma keeps_jump: "keeps I (micro_jump i)"
  unfolding micro_jump_def [abs_def] by (intro keeps_intros)

subsection \<open>Ticks and the program counter\<close>

lemma alu_operation_ticks: "micro_alu_operation h i cu = Ok u cu' \<Longrightarrow> cu_tick cu' = cu_tick cu + 2"
  unfolding micro_alu_operation_def
  by (auto elim!: bnd_OkE dest!: prim_OkD split: if_splits option.splits)

lemma drop_ticks: "micro_drop i cu = Ok u cu' \<Longrightarrow> cu_tick cu' = cu_tick cu + 1"
  unfolding micro_drop_def
  by (auto elim!: bnd_OkE dest!: prim_OkD split: if_splits option.splits)

lemma duplicate_ticks: "micro_duplicate i cu = Ok u cu' \<Longrightarrow> cu_tick cu' = cu_tick cu + 1"
  unfolding micro_duplicate_def
  by (auto elim!: bnd_OkE dest!: prim_OkD split: if_splits option.splits)

lemma jump_ticks: "micro_jump i cu = Ok u cu' \<Longrightarrow> cu_tick cu' = cu_tick cu + 1"
  unfolding micro_jump_def
  by (auto elim!: bnd_OkE dest!: prim_OkD split: if_splits option.splits)

lemma jump_if_not_true_ticks: "micro_jump_if_not_true i cu = Ok u cu' \<Longrightarrow> cu_tick cu' = cu_tick cu + 1"
  unfolding micro_jump_if_not_true_def
  by (auto elim!: bnd_OkE dest!: prim_OkD split: if_splits option.splits)

lemma no_operation_ticks: "micro_no_operation i cu = Ok u cu' \<Longrightarrow> cu_tick cu' = cu_tick cu + 1"
  unfolding micro_no_operation_def
  by (auto elim!: bnd_OkE dest!: prim_OkD split: if_splits option.splits)

lemma over_ticks: "micro_over i cu = Ok u cu' \<Longrightarrow> cu_tick cu' = cu_tick cu + 1"
  unfolding micro_over_def
  by (auto elim!: bnd_OkE dest!: prim_OkD split: if_splits option.splits)

lemma push_ticks: "micro_push h i cu = Ok u cu' \<Longrightarrow> cu_tick cu' = cu_tick cu + 1"
  unfolding micro_push_def
  by (auto elim!: bnd_OkE dest!: prim_OkD int_arg_OkD ord_arg_OkD split: if_splits option.splits)

lemma read_direct_ticks: "micro_read_direct h i cu = Ok u cu' \<Longrightarrow> cu_tick cu' = cu_tick cu + 2"
  unfolding micro_read_direct_def
  by (auto elim!: bnd_OkE dest!: prim_OkD split: if_splits option.splits)

lemma read_indirect_ticks: "micro_read_indirect h i cu = Ok u cu' \<Longrightarrow> cu_tick cu' = cu_tick cu + 7"
  unfolding micro_read_indirect_def
  by (auto elim!: bnd_OkE dest!: prim_OkD split: if_splits option.splits)

lemma rotate_ticks: "micro_rotate i cu = Ok u cu' \<Longrightarrow> cu_tick cu' = cu_tick cu + 1"
  unfolding micro_rotate_def
  by (auto elim!: bnd_OkE dest!: prim_OkD split: if_splits option.splits)

lemma swap_ticks: "micro_swap i cu = Ok u cu' \<Longrightarrow> cu_tick cu' = cu_tick cu + 1"
  unfolding micro_swap_def
  by (auto elim!: bnd_OkE dest!: prim_OkD split: if_splits option.splits)

lemma write_direct_ticks: "micro_write_direct h i cu = Ok u cu' \<Longrightarrow> cu_tick cu' = cu_tick cu + 2"
  unfolding micro_write_direct_def
  by (auto elim!: bnd_OkE dest!: prim_OkD split: if_splits option.splits)

lemma write_indirect_ticks: "micro_write_indirect h i cu = Ok u cu' \<Longrightarrow> cu_tick cu' = cu_tick cu + 6"
  unfolding micro_write_indirect_def
  by (auto elim!: bnd_OkE dest!: prim_OkD split: if_splits option.splits)

lemma latch_pc_jump_OkD:
  "latch_pc False cu = Ok u cu' \<Longrightarrow>
   \<exists>j a. get_instruction (pc cu) (mem cu) = Ok (Ins j) (mem cu) \<and> arg j = Some a
     \<and> cu' = cu\<lparr>pc := a\<rparr>"
  by (auto simp: latch_pc_def split: if_splits pyval.splits cell.splits option.splits
      elim!: bnd_OkE dest!: in_mem_OkD) (auto dest: get_instruction_OkD)

lemma read_direct_pc:
  "micro_read_direct h i cu = Ok u cu' \<Longrightarrow> \<exists>p. pc cu = PyInt p \<and> pc cu' = PyInt (p + 1)"
  unfolding micro_read_direct_def
  by (auto elim!: bnd_OkE dest!: prim_OkD int_arg_OkD ord_arg_OkD
      split: if_splits option.splits)

lemma read_indirect_pc:
  "micro_read_indirect h i cu = Ok u cu' \<Longrightarrow> \<exists>p. pc cu = PyInt p \<and> pc cu' = PyInt (p + 1)"
  unfolding micro_read_indirect_def
  by (auto elim!: bnd_OkE dest!: prim_OkD int_arg_OkD ord_arg_OkD
      split: if_splits option.splits)

lemma write_direct_pc:
  "micro_write_direct h i cu = Ok u cu' \<Longrightarrow> \<exists>p. pc cu = PyInt p \<and> pc cu' = PyInt (p + 1)"
  unfolding micro_write_direct_def
  by (auto elim!: bnd_OkE dest!: prim_OkD int_arg_OkD ord_arg_OkD
      split: if_splits option.splits)

lemma write_indirect_pc:
  "micro_write_indirect h i cu = Ok u cu' \<Longrightarrow> \<exists>p. pc cu = PyInt p \<and> pc cu' = PyInt (p + 1)"
  unfolding micro_write_indirect_def
  by (auto elim!: bnd_OkE dest!: prim_OkD int_arg_OkD ord_arg_OkD
      split: if_splits option.splits)

lemma no_operation_pc:
  "micro_no_operation i cu = Ok u cu' \<Longrightarrow> \<exists>p. pc cu = PyInt p \<and> pc cu' = PyInt (p + 1)"
  unfolding micro_no_operation_def
  by (auto elim!: bnd_OkE dest!: prim_OkD int_arg_OkD ord_arg_OkD
      split: if_splits option.splits)

lemma alu_operation_pc:
  "micro_alu_operation h i cu = Ok u cu' \<Longrightarrow> \<exists>p. pc cu = PyInt p \<and> pc cu' = PyInt (p + 1)"
  unfolding micro_alu_operation_def
  by (auto elim!: bnd_OkE dest!: prim_OkD int_arg_OkD ord_arg_OkD
      split: if_splits option.splits)

lemma rotate_pc:
  "micro_rotate i cu = Ok u cu' \<Longrightarrow> \<exists>p. pc cu = PyInt p \<and> pc cu' = PyInt (p + 1)"
  unfolding micro_rotate_def
  by (auto elim!: bnd_OkE dest!: prim_OkD int_arg_OkD ord_arg_OkD
      split: if_splits option.splits)

lemma duplicate_pc:
  "micro_duplicate i cu = Ok u cu' \<Longrightarrow> \<exists>p. pc cu = PyInt p \<and> pc cu' = PyInt (p + 1)"
  unfolding micro_duplicate_def
  by (auto elim!: bnd_OkE dest!: prim_OkD int_arg_OkD ord_arg_OkD
      split: if_splits option.splits)

lemma over_pc:
  "micro_over i cu = Ok u cu' \<Longrightarrow> \<exists>p. pc cu = PyInt p \<and> pc cu' = PyInt (p + 1)"
  unfolding micro_over_def
  by (auto elim!: bnd_OkE dest!: prim_OkD int_arg_OkD ord_arg_OkD
      split: if_splits option.splits)

lemma swap_pc:
  "micro_swap i cu = Ok u cu' \<Longrightarrow> \<exists>p. pc cu = PyInt p \<and> pc cu' = PyInt (p + 1)"
  unfolding micro_swap_def
  by (auto elim!: bnd_OkE dest!: prim_OkD int_arg_OkD ord_arg_OkD
      split: if_splits option.splits)

lemma drop_pc:
  "micro_drop i cu = Ok u cu' \<Longrightarrow> \<exists>p. pc cu = PyInt p \<and> pc cu' = PyInt (p + 1)"
  unfolding micro_drop_def
  by (auto elim!: bnd_OkE dest!: prim_OkD int_arg_OkD ord_arg_OkD
      split: if_splits option.splits)

lemma push_pc:
  "micro_push h i cu = Ok u cu' \<Longrightarrow> \<exists>p. pc cu = PyInt p \<and> pc cu' = PyInt (p + 1)"
  unfolding micro_push_def
  by (auto elim!: bnd_OkE dest!: prim_OkD int_arg_OkD ord_arg_OkD
      split: if_splits option.splits)

lemma jump_pc: "micro_jump i cu = Ok u cu' \<Longrightarrow> arg i = Some (pc cu')"
  unfolding micro_jump_def
  by (auto dest!: tick_OkD split: option.splits)

lemma jump_if_not_true_pc:
  assumes "micro_jump_if_not_true i cu = Ok u cu'"
  shows "(\<exists>p. pc cu = PyInt p \<and> pc cu' = PyInt (p + 1))
   \<or> (\<exists>j. get_instruction (pc cu) (mem cu) = Ok (Ins j) (mem cu) \<and> arg j = Some (pc cu'))"
proof -
  from assms obtain res cu1 where 1: "in_dp is_true cu = Ok res cu1"
    and 2: "bnd (if res \<noteq> 0 then latch_pc True cu1 else latch_pc False cu1) (\<lambda>_ cu. tick cu) = Ok u cu'"
    unfolding micro_jump_if_not_true_def by (rule bnd_OkE)
  from in_dp_OkD [OF 1] obtain d where cu1: "cu1 = cu\<lparr>data_path := d\<rparr>" by blast
  from 2 obtain w cu2 where 3: "(if res \<noteq> 0 then latch_pc True cu1 else latch_pc False cu1) = Ok w cu2"
    and 4: "tick cu2 = Ok u cu'" by (rule bnd_OkE)
  from tick_OkD [OF 4] have cu': "pc cu' = pc cu2" by simp
  show ?thesis
  proof (cases "res \<noteq> 0")
    case True
    with 3 have "latch_pc True cu1 = Ok w cu2" by simp
    from latch_pc_OkD [OF this] cu1 cu' show ?thesis by auto
  next
    case False
    with 3 have "latch_pc False cu1 = Ok w cu2" by simp
    from latch_pc_jump_OkD [OF this] cu1 cu' show ?thesis by auto
  qed
qed

lemma handler_ticks:
  assumes "handlers h (opcode i) = Some f" and "f i cu = Ok u cu'"
  shows "cu_tick cu' = cu_tick cu + op_ticks (opcode i)"
proof (cases "opcode i")
  case HALT
  with assms show ?thesis by (simp add: micro_halt_def)
qed (use assms in \<open>auto simp: op_ticks_def dest: read_direct_ticks read_indirect_ticks
      write_direct_ticks write_indirect_ticks jump_if_not_true_ticks no_operation_ticks
      alu_operation_ticks rotate_ticks duplicate_ticks over_ticks swap_ticks push_ticks
      drop_ticks jump_ticks\<close>)

lemma handler_pc:
  assumes "handlers h (opcode i) = Some f" and "f i cu = Ok u cu'"
    and "opcode i \<notin> {JMP, JNT}"
  shows "\<exists>p. pc cu = PyInt p \<and> pc cu' = PyInt (p + 1)"
proof (cases "opcode i")
  case HALT
  with assms show ?thesis by (simp add: micro_halt_def)
qed (use assms in \<open>auto dest: read_direct_pc read_indirect_pc
      write_direct_pc write_indirect_pc no_operation_pc
      alu_operation_pc rotate_pc duplicate_pc over_pc swap_pc push_pc drop_pc\<close>)

lemma keeps_handler:
  assumes st: "stack_stable I"
    and al: "opcode i \<in> {MOD, PLUS, MULT, LT, DIV, POW, NEG, INV} \<Longrightarrow> dp_keeps I (latch_alu h (opcode i))"
    and h: "handlers h (opcode i) = Some f"
  shows "keeps I (f i)"
  using h al
  by (cases "opcode i")
     (auto simp: keeps_read_direct [OF st] keeps_read_indirect [OF st] keeps_write_direct [OF st]
        keeps_write_indirect [OF st] keeps_jump_if_not_true [OF st] keeps_halt keeps_no_operation
        keeps_alu_operation [OF st] keeps_rotate [OF st] keeps_duplicate [OF st] keeps_over [OF st]
        keeps_swap [OF st] keeps_push [OF st] keeps_drop [OF st] keeps_jump)

lemma keeps_execute:
  assumes st: "stack_stable I"
    and al: "\<And>i. c = Ins i \<Longrightarrow> opcode i \<in> {MOD, PLUS, MULT, LT, DIV, POW, NEG, INV}
      \<Longrightarrow> dp_keeps I (latch_alu h (opcode i))"
  shows "keeps I (execute_micro_operation h c)"
proof (cases c)
  case (Num n)
  then show ?thesis by (simp add: execute_micro_operation_def [abs_def] keeps_Raise)
next
  case (Flt f)
  then show ?thesis by (simp add: execute_micro_operation_def [abs_def] keeps_Raise)
next
  case (Ins i)
  show ?thesis
  proof (cases "handlers h (opcode i)")
    case None
    with Ins show ?thesis by (simp add: execute_micro_operation_def [abs_def] keeps_Ok)
  next
    case (Some f)
    from keeps_handler [OF st al [OF Ins] Some] have "keeps I (f i)" by simp
    with Ins Some show ?thesis by (simp add: execute_micro_operation_def [abs_def])
  qed
qed

subsection \<open>The stack invariant and the driver\<close>

lemma stack_256_stable: "stack_stable stack_256"
  unfolding stack_stable_def
proof (intro conjI allI)
  fix k show "dp_keeps stack_256 (latch_head k)"
    by (rule dp_keepsI) (auto simp: stack_256_def dp_wf_def dest!: latch_head_OkD)
next
  fix v show "dp_keeps stack_256 (push v)"
    by (rule dp_keepsI) (auto simp: stack_256_def dp_wf_def dest!: push_OkD py_set_length)
qed

lemma stack_256_latch_alu: "dp_keeps stack_256 (latch_alu h op)"
  by (rule dp_keepsI) (auto simp: stack_256_def dp_wf_def dest!: latch_alu_OkD)

lemma keeps_decode:
  assumes st: "stack_stable I"
    and al: "\<And>op. op \<in> {MOD, PLUS, MULT, LT, DIV, POW, NEG, INV} \<Longrightarrow> dp_keeps I (latch_alu h op)"
  shows "keeps I (decode_and_execute h)"
  unfolding decode_and_execute_def [abs_def]
  by (intro keeps_bnd keeps_in_mem keeps_execute st al)

lemma initial_unit_stack:
  assumes "initial_unit code ms inp D = Inr cu0"
  shows "stack_256 (data_path cu0)"
  using assms
  by (auto simp: initial_unit_def DataPath_init_def ControlUnit_init_def stack_256_def dp_wf_def
      split: sum.splits)

lemma steps_keeps:
  assumes "steps h n cu0 = Ok u cu" and "keeps I (decode_and_execute h)" and "I (data_path cu0)"
  shows "I (data_path cu)"
  using assms
proof (induction n arbitrary: cu0)
  case 0
  then show ?case by simp
next
  case (Suc n)
  from Suc.prems(1) obtain w cu1 where 1: "decode_and_execute h cu0 = Ok w cu1"
    and 2: "steps h n cu1 = Ok u cu"
    by (auto elim!: bnd_OkE)
  from keepsD [OF Suc.prems(2) Suc.prems(3) 1] have "I (data_path cu1)" .
  from Suc.IH [OF 2 Suc.prems(2) this] show ?case .
qed

lemma simulation_initial:
  assumes "initial_unit code ms inp D = Inr cu0"
  shows "simulation h code ms limit inp D =
    (case simulation_loop h limit 0 cu0 of
       Inl e \<Rightarrow> Inl e
     | Inr (c, cu) \<Rightarrow> Inr (output_buffer (mem cu), c, cur_tick cu))"
  using assms by (auto simp: simulation_def initial_unit_def split: sum.splits)

lemma simulation_loop_steps:
  "steps h n cu = Ok () cu' \<Longrightarrow> c + int n = limit \<Longrightarrow>
   simulation_loop h limit c cu = Inr (limit, cu')"
proof (induction n arbitrary: c cu)
  case 0
  then show ?case by (subst simulation_loop.simps) simp
next
  case (Suc n)
  from Suc.prems(1) obtain u cu1 where 1: "decode_and_execute h cu = Ok u cu1"
    and 2: "steps h n cu1 = Ok () cu'"
    by (auto elim!: bnd_OkE)
  from Suc.prems(2) have "(c + 1) + int n = limit" by simp
  from Suc.IH [OF 2 this] have "simulation_loop h limit (c + 1) cu1 = Inr (limit, cu')" .
  moreover from Suc.prems(2) have "\<not> limit \<le> c" by simp
  ultimately show ?case using 1 by (subst simulation_loop.simps) simp
qed

subsection \<open>Example runs\<close>

lemma self_jump_initial: "initial_unit [jmp_self] 600 [] [] = Inr self_jump_unit"
  by (simp add: initial_unit_def Memory_init_def DataPath_init_def ControlUnit_init_def
      self_jump_unit_def machine_at_def)

lemma self_jump_step:
  "decode_and_execute h (self_jump_unit\<lparr>cu_tick := t\<rparr>) = Ok () (self_jump_unit\<lparr>cu_tick := t + 1\<rparr>)"
  by (simp add: self_jump_unit_def jmp_self_def run_defs micro_jump_def)

lemma self_jump_steps:
  "steps h n (self_jump_unit\<lparr>cu_tick := t\<rparr>) = Ok () (self_jump_unit\<lparr>cu_tick := t + int n\<rparr>)"
  by (induction n arbitrary: t) (simp_all add: self_jump_step add.assoc)

lemma self_jump_tick: "self_jump_unit\<lparr>cu_tick := 0\<rparr> = self_jump_unit"
  by (simp add: self_jump_unit_def machine_at_def)

lemma push_example_initial: "initial_unit push_program 600 [] [] = Inr push_start"
  by (simp add: initial_unit_def Memory_init_def DataPath_init_def ControlUnit_init_def
      push_start_def push_program_def machine_at_def)

lemma push_example_run: "decode_and_execute plain_host push_start = Ok () push_done"
  unfolding push_done_def
  by (simp add: push_start_def push_program_def push_5_def run_defs micro_push_def
      int_arg_def)

lemma push_example_head: "head (data_path push_done) = 1"
  unfolding push_done_def
  by (simp add: push_start_def push_program_def push_5_def run_defs micro_push_def
      int_arg_def)

lemma div_run:
  assumes wf: "dp_wf (data_path cu)"
    and fetch: "get_instruction (pc cu) (mem cu) = Ok (Ins i) (mem cu)"
    and op: "opcode i = DIV"
    and depth: "2 \<le> head (data_path cu)"
  shows "\<exists>cu'. decode_and_execute h cu = Ok () cu'
        \<and> get_tos 0 (data_path cu') = Ok (alu (data_path cu)) (data_path cu')
        \<and> alu (data_path cu') = alu (data_path cu)
        \<and> head (data_path cu') = head (data_path cu) - 1
        \<and> take (nat (head (data_path cu) - 2)) (stack (data_path cu'))
            = take (nat (head (data_path cu) - 2)) (stack (data_path cu))
        \<and> cu_tick cu' = cu_tick cu + 2"
proof -
  from fetch obtain p where p: "pc cu = PyInt p" by (auto dest: fetch_pc_int)
  let ?dp = "data_path cu"
  have len: "int (length (stack ?dp)) = dp_memory_size ?dp" "head ?dp < dp_memory_size ?dp"
    using wf by (simp_all add: dp_wf_def)
  have run: "decode_and_execute h cu = micro_alu_operation h i cu"
    using fetch op by (simp add: decode_fetched execute_micro_operation_def)
  have latch: "latch_alu h (opcode i) ?dp = Ok () (?dp\<lparr>alu := alu ?dp\<rparr>)"
    using op by simp
  have k: "(2::int) = (if opcode i \<in> {NEG, INV} then 1 else 2)" using op by simp
  have idx: "nat (head ?dp - 2) < length (stack ?dp)" using depth len by linarith
  show ?thesis
    unfolding run micro_alu_run [OF wf p latch k depth]
    using depth len idx by (simp add: get_tos_run)
qed

subsection \<open>The accumulator\<close>

lemma alu_stable: "stack_stable (\<lambda>dp. alu dp = v)"
  unfolding stack_stable_def
proof (intro conjI allI)
  fix k show "dp_keeps (\<lambda>dp. alu dp = v) (latch_head k)"
    by (rule dp_keepsI) (auto dest!: latch_head_OkD)
next
  fix w show "dp_keeps (\<lambda>dp. alu dp = v) (push w)"
    by (rule dp_keepsI) (auto dest!: push_OkD)
qed

lemma alu_kept:
  assumes fetch: "get_instruction (pc cu) (mem cu) = Ok (Ins j) (mem cu)"
    and op: "opcode j \<notin> {MOD, PLUS, MULT, POW, LT, NEG, INV}"
    and run: "decode_and_execute h cu = Ok u cu'"
  shows "alu (data_path cu') = alu (data_path cu)"
proof -
  let ?I = "\<lambda>dp. alu dp = alu (data_path cu)"
  have "dp_keeps ?I (latch_alu h (opcode i))"
    if "Ins j = Ins i" "opcode i \<in> {MOD, PLUS, MULT, LT, DIV, POW, NEG, INV}" for i
  proof -
    from that op have "opcode i = DIV" by auto
    then show ?thesis by (simp add: dp_keeps_def)
  qed
  then have "keeps ?I (execute_micro_operation h (Ins j))"
    by (intro keeps_execute alu_stable)
  moreover from run fetch have "execute_micro_operation h (Ins j) cu = Ok u cu'"
    by (simp add: decode_fetched)
  ultimately show ?thesis by (blast dest: keepsD)
qed

lemma initial_unit_alu: "initial_unit code ms inp D = Inr cu0 \<Longrightarrow> alu (data_path cu0) = Num 0"
  by (auto simp: initial_unit_def DataPath_init_def ControlUnit_init_def split: sum.splits)

lemmas example_defs = invert_example_def pow_example_def pow_zero_example_def div_example_def
  minus_example_def invert_float_example_def invert_word_example_def pow_float_example_def
  pow_big_example_def pow_trunc_example_def pow_word_example_def

text \<open>The two indirect accesses on their example states, and what they leave.\<close>

lemma read_ndr_run: "decode_and_execute plain_host read_ndr_example = Ok () read_ndr_after"
  unfolding read_ndr_after_def
  by (simp add: read_ndr_example_def run_defs micro_read_indirect_def)

lemma write_ndr_run: "decode_and_execute plain_host write_ndr_example = Ok () write_ndr_after"
  unfolding write_ndr_after_def
  by (simp add: write_ndr_example_def run_defs micro_write_indirect_def)

lemma read_ndr_result:
  "get_tos 0 (data_path read_ndr_after) = Ok (Num 42) (data_path read_ndr_after)
   \<and> head (data_path read_ndr_after) = 1
   \<and> py_index (data (mem read_ndr_after)) 2 = Some (Num 4)"
  unfolding read_ndr_after_def
  by (simp add: read_ndr_example_def run_defs micro_read_indirect_def)

lemma write_ndr_result:
  "head (data_path write_ndr_after) = 0
   \<and> py_index (data (mem write_ndr_after)) 3 = Some (Num 99)
   \<and> py_index (data (mem write_ndr_after)) 2 = Some (Num 4)"
  unfolding write_ndr_after_def
  by (simp add: write_ndr_example_def run_defs micro_write_indirect_def)

subsection \<open>The dispatch table\<close>

lemma handlers_None: "handlers h op = None \<longleftrightarrow> op \<in> {MINUS, PRINT}"
  by (cases op) simp_all

lemma op_ticks_pos: "handlers h op = Some f \<Longrightarrow> op \<noteq> HALT \<Longrightarrow> 0 < op_ticks op"
  by (cases op) (simp_all add: op_ticks_def)

subsection \<open>Reading a program file\<close>

lemma split_from_absent:
  "\<not> contains sep s \<Longrightarrow> split_from sep acc s = [rev acc @ s]"
  by (induction s arbitrary: acc) simp_all

lemma split_absent: "\<not> contains sep s \<Longrightarrow> split s sep = [s]"
  by (simp add: split_def split_from_absent)

lemma file_read_twice:
  "file_read (snd (file_read \<lparr>contents = t, position = 0\<rparr>)) = ([], \<lparr>contents = t, position = length t\<rparr>)"
  by (simp add: file_read_def)

lemma read_code_no_data:
  assumes "\<not> contains ''data'' t"
  shows "read_code j t =
    (case loads j [] of
       None \<Rightarrow> Inl JSONDecodeError
     | Some code \<Rightarrow> (case rehydrate code of Inl e \<Rightarrow> Inl e | Inr code' \<Rightarrow> Inl UnboundLocalError))"
  using assms by (simp add: read_code_def file_read_def)

lemma read_code_no_split:
  assumes "contains ''data'' t" and "\<not> contains '']\<newline>['' t"
  shows "read_code j t = Inl IndexError"
  using assms by (simp add: read_code_def file_read_def split_absent)

subsection \<open>Whole runs of the example programs\<close>

lemmas sim_defs = simulation_def Memory_init_def DataPath_init_def
  ControlUnit_init_def push_int_def print_top_def cur_tick_def str_int_def
  micro_read_direct_def micro_read_indirect_def micro_write_direct_def
  micro_write_indirect_def micro_jump_if_not_true_def micro_halt_def micro_no_operation_def
  micro_alu_operation_def micro_rotate_def micro_duplicate_def micro_over_def micro_swap_def
  micro_push_def micro_drop_def micro_jump_def int_arg_def ord_arg_def

lemma rot_program_run:
  "simulation plain_host rot_program 600 100 [] [] = Inr ([''201'', ''203'', ''202''], 10, 13)"
  by (simp add: rot_program_def sim_defs run_defs)

lemma invert_program_run:
  "simulation plain_host invert_program 600 100 [] [] = Inr ([''-301'', ''900''], 7, 10)"
  by (simp add: invert_program_def sim_defs run_defs)

lemma pow_program_run:
  "simulation plain_host pow_program 600 100 [] [] = Inr ([''243''], 5, 7)"
  by (simp add: pow_program_def sim_defs run_defs)

lemma pow_zero_program_run:
  "simulation plain_host pow_zero_program 600 100 [] [] = Inl ZeroDivisionError"
  by (simp add: pow_zero_program_def sim_defs run_defs)

lemma invert_float_program_run:
  "simulation plain_host invert_float_program 600 100 [] [] = Inr ([''-1''], 6, 9)"
  by (simp add: invert_float_program_def sim_defs run_defs)

lemma invert_word_program_run:
  "simulation plain_host invert_word_program 600 100 [] [] = Inl TypeError"
  by (simp add: invert_word_program_def sim_defs run_defs)

lemma pow_float_program_run:
  "simulation plain_host pow_float_program 600 100 [] [] = Inr ([''-0.5''], 5, 7)"
  by (simp add: pow_float_program_def sim_defs run_defs)

lemma pow_trunc_program_run:
  "simulation plain_host pow_trunc_program 600 100 [] [] = Inr ([[CHR 0x00]], 7, 10)"
  by (simp add: pow_trunc_program_def sim_defs run_defs char_of_def)

lemma div_program_run:
  "simulation plain_host div_program 600 100 [] [] = Inr ([''700''], 8, 11)"
  by (simp add: div_program_def sim_defs run_defs)

lemma minus_program_run:
  "simulation plain_host minus_program 600 3 [] [] = Inr ([], 3, 0)"
  by (simp add: minus_program_def sim_defs run_defs)

lemma read_ndr_program_run:
  "simulation plain_host read_ndr_program 600 100 [] [0, 0, 3, 42] = Inr ([], 2, 8)"
  by (simp add: read_ndr_program_def sim_defs run_defs)

lemma write_ndr_program_run:
  "simulation plain_host write_ndr_program 600 100 [] [0, 0, 3, 0] = Inr ([], 3, 8)"
  by (simp add: write_ndr_program_def sim_defs run_defs)

subsection \<open>The concrete cases of the specification, run on the model\<close>

text \<open>
  \<^verbatim>\<open>PLUS\<close> on 3 and 4 leaves 7, \<^verbatim>\<open>LT\<close> on 5 and 3 leaves 0, \<^verbatim>\<open>PUSH 'A'\<close> pushes 65, writing 65 to
  the output port appends the character A and writing 200 appends the text 200, reading the
  input port when the queue is empty ends the run normally, and a character read from the
  queue is echoed. The decoded one-instruction program is rehydrated to \<^term>\<open>halt_code\<close>.
\<close>

lemma case_plus:
  "simulation plain_host ([push_int 3, push_int 4, op_instr PLUS] @ print_top @ [op_instr HALT])
     600 100 [] [] = Inr ([[CHR 0x07]], 5, 7)"
  by (simp add: sim_defs run_defs char_of_def)

lemma case_lt:
  "simulation plain_host ([push_int 5, push_int 3, op_instr LT] @ print_top @ [op_instr HALT])
     600 100 [] [] = Inr ([[CHR 0x00]], 5, 7)"
  by (simp add: sim_defs run_defs char_of_def)

lemma case_push_char:
  "simulation plain_host ([push_char CHR ''A''] @ print_top @ [op_instr HALT]) 600 100 [] []
     = Inr ([''A''], 3, 4)"
  by (simp add: sim_defs run_defs char_of_def push_char_def)

lemma case_print_200:
  "simulation plain_host ([push_int 200] @ print_top @ [op_instr HALT]) 600 100 [] []
     = Inr ([''200''], 3, 4)"
  by (simp add: sim_defs run_defs char_of_def)

lemma case_empty_input:
  "simulation plain_host echo_program 600 100 [] [] = Inr ([], 1, 2)"
  by (simp add: echo_program_def sim_defs run_defs char_of_def)

lemma case_echo:
  "simulation plain_host echo_program 600 100 [''h'', ''i''] [] = Inr ([''h''], 4, 6)"
  by (simp add: echo_program_def sim_defs run_defs char_of_def)

text \<open>
  Floats and instruction words on the stack, as the machine of the source treats them:
  the float \<^verbatim>\<open>1.0\<close> (from \<^verbatim>\<open>1 ** -1\<close>) addresses the output port when written to and fails
  the assertion of \<^verbatim>\<open>read\<close>; the float \<^verbatim>\<open>0.5\<close> is no list index and no argument of
  \<^verbatim>\<open>chr\<close>; the float \<^verbatim>\<open>-1.0\<close> (from \<^verbatim>\<open>(-1) ** -1\<close>) is true for \<^verbatim>\<open>JNT\<close>; and an
  instruction word read from address 599 is no address and cannot be compared with 0 at
  the output port.
\<close>

lemma case_float_port:
  "simulation plain_host
     [push_int 200, push_int (- 1), push_int 1, op_instr POW, op_instr WR_DIR, op_instr HALT]
     600 100 [] [] = Inr ([''200''], 5, 7)"
  by (simp add: sim_defs run_defs)

lemma case_float_read:
  "simulation plain_host
     [push_int (- 1), push_int 1, op_instr POW, op_instr READ_DIR, op_instr HALT]
     600 100 [] [] = Inl AssertionError"
  by (simp add: sim_defs run_defs)

lemma case_float_index:
  "simulation plain_host
     [push_int (- 1), push_int 2, op_instr POW, op_instr READ_DIR, op_instr HALT]
     600 100 [] [] = Inl TypeError"
  by (simp add: sim_defs run_defs)

lemma case_float_chr:
  "simulation plain_host
     ([push_int (- 1), push_int 2, op_instr POW] @ print_top @ [op_instr HALT])
     600 100 [] [] = Inl TypeError"
  by (simp add: sim_defs run_defs)

lemma case_float_true:
  "simulation plain_host
     ([push_int (- 1), push_int (- 1), op_instr POW, jump_if_not 3, push_int 300]
      @ print_top @ [op_instr HALT])
     600 100 [] [] = Inr ([''300''], 7, 9)"
  by (simp add: sim_defs run_defs jump_if_not_def)

lemma case_word_address:
  "simulation plain_host
     [push_int 599, op_instr READ_DIR, op_instr READ_DIR, op_instr HALT]
     600 100 [] [] = Inl TypeError"
  by (simp add: sim_defs run_defs)

lemma case_word_port:
  "simulation plain_host
     ([push_int 599, op_instr READ_DIR] @ print_top @ [op_instr HALT, op_instr HALT])
     600 100 [] [] = Inl TypeError"
  by (simp add: sim_defs run_defs)

lemma rehydrate_halt:
  "rehydrate (PList [PDict [(''opcode'', PStr ''HALT'')]]) = Inr halt_code"
  by (simp add: halt_code_def opcodes_def set_key_def)

section \<open>Memory layout\<close>

text \<open>
  C1 (as amended). After \<^verbatim>\<open>Memory\<close> is constructed from a program of length \<open>L\<close> and
  an initial data segment \<open>D\<close> that fits below the program
  (\<open>length D \<le> memory_size - L\<close>), the memory has \<open>memory_size\<close> cells; the words of
  \<open>D\<close> occupy the consecutive addresses \<open>0 .. length D - 1\<close> (they start at address
  0, on top of the two port cells); the addresses from \<open>length D\<close> up to the program
  boundary hold zero; the program text occupies the last \<open>L\<close> addresses
  \<open>memory_size - L .. memory_size - 1\<close>, which start strictly above address 128; and
  for every \<open>0 \<le> pc < L\<close>, \<^verbatim>\<open>get_instruction(pc)\<close> returns the word stored at address
  \<open>memory_size - L + pc\<close>, the instruction \<open>pc\<close> of the program.
\<close>

theorem memory_layout:
  assumes init: "Memory_init ms program inp D = Inr m"
    and fits: "int (length D) \<le> ms - int (length program)"
  shows "int (length (data m)) = ms
    \<and> program_start m = ms - int (length program) \<and> 128 < program_start m
    \<and> (\<forall>i. 0 \<le> i \<and> i < int (length D) \<longrightarrow> py_index (data m) i = Some (Num (D ! nat i)))
    \<and> (\<forall>a. int (length D) \<le> a \<and> a < program_start m \<longrightarrow> py_index (data m) a = Some (Num 0))
    \<and> (\<forall>p. 0 \<le> p \<and> p < int (length program) \<longrightarrow>
          py_index (data m) (program_start m + p) = Some (Ins (program ! nat p))
        \<and> get_instruction (PyInt p) m = Ok (Ins (program ! nat p)) m)"
proof -
  let ?L = "int (length program)"
  let ?k = "nat (ms - ?L - int (length D))"
  from init have ok: "0 < ms" "?L + 128 < ms"
    by (auto simp: Memory_init_def split: if_splits)
  from init ok have m: "m = \<lparr>data_address = Num 0, memory_size = ms,
      data = map Num D @ replicate ?k (Num 0) @ map Ins program,
      program_start = ms - ?L, program_len = ?L, input_buffer = inp, output_buffer = []\<rparr>"
    by (simp add: Memory_init_def)
  have len: "int (length (data m)) = ms" using fits by (simp add: m)
  have start: "program_start m = ms - ?L" "128 < program_start m" using ok by (simp_all add: m)
  have low: "py_index (data m) i = Some (Num (D ! nat i))" if "0 \<le> i" "i < int (length D)" for i
    using that fits ok by (simp add: py_index_nonneg m nth_append)
  have zero: "py_index (data m) a = Some (Num 0)" if "int (length D) \<le> a" "a < program_start m" for a
  proof -
    from that have "0 \<le> a" by linarith
    moreover have "nat a - length D < ?k" using that fits by (simp add: m)
    moreover have "\<not> nat a < length D" using that by linarith
    ultimately show ?thesis using that fits ok
      by (simp add: py_index_nonneg m nth_append)
  qed
  have prog: "py_index (data m) (program_start m + p) = Some (Ins (program ! nat p))
        \<and> get_instruction (PyInt p) m = Ok (Ins (program ! nat p)) m"
    if "0 \<le> p" "p < ?L" for p
  proof -
    have a: "nat (ms - ?L + p) = length D + ?k + nat p" using that fits by linarith
    have "py_index (data m) (ms - ?L + p) = Some (Ins (program ! nat p))"
      using that fits ok by (simp add: py_index_nonneg m a nth_append)
    moreover have "program_start m + p = ms - ?L + p" by (simp add: m)
    ultimately have idx: "py_index (data m) (program_start m + p) = Some (Ins (program ! nat p))"
      by simp
    have "program_len m = ?L" "memory_size m = ms" by (simp_all add: m)
    then have "get_instruction (PyInt p) m = Ok (Ins (program ! nat p)) m"
      using that ok idx start by (simp add: get_instruction_def add.commute)
    with idx show ?thesis by simp
  qed
  show ?thesis using len start low zero prog by blast
qed

text \<open>
  The theorem at a memory of 131 words with the data segment \<open>[7, 8, 9]\<close> and a program
  of two instructions: the data words are at addresses 0 to 2, address 3 is zero, and
  the program is at addresses 129 and 130.
\<close>

theorem memory_layout_witness:
  "Memory_init 131 [halt_instr, nop_instr] [] [7, 8, 9] = Inr small_memory
   \<and> int (length [7, 8, 9 :: int]) \<le> 131 - int (length [halt_instr, nop_instr])
   \<and> int (length (data small_memory)) = 131
   \<and> program_start small_memory = 129
   \<and> py_index (data small_memory) 0 = Some (Num 7)
   \<and> py_index (data small_memory) 3 = Some (Num 0)
   \<and> py_index (data small_memory) 130 = Some (Ins nop_instr)
   \<and> get_instruction (PyInt 1) small_memory = Ok (Ins nop_instr) small_memory"
proof -
  have fits: "int (length [7, 8, 9 :: int]) \<le> 131 - int (length [halt_instr, nop_instr])"
    by simp
  note t = memory_layout [OF small_memory_init fits]
  have len: "int (length (data small_memory)) = 131"
    using t [THEN conjunct1] .
  have start: "program_start small_memory = 129"
    using t [THEN conjunct2, THEN conjunct1] by simp
  have low: "py_index (data small_memory) 0 = Some (Num 7)"
    using t [THEN conjunct2, THEN conjunct2, THEN conjunct2, THEN conjunct1, rule_format, of 0]
    by simp
  have zero: "py_index (data small_memory) 3 = Some (Num 0)"
    using t [THEN conjunct2, THEN conjunct2, THEN conjunct2, THEN conjunct2, THEN conjunct1,
        rule_format, of 3] start
    by simp
  have prog: "py_index (data small_memory) 130 = Some (Ins nop_instr)
      \<and> get_instruction (PyInt 1) small_memory = Ok (Ins nop_instr) small_memory"
    using t [THEN conjunct2, THEN conjunct2, THEN conjunct2, THEN conjunct2, THEN conjunct2,
        rule_format, of 1] start
    by simp
  show ?thesis using small_memory_init fits len start low zero prog by simp
qed

text \<open>
  The claim as stated fails on the same memory: address 2 holds the third word of the
  data segment and not its first, address 128 holds a zero of the fill, and
  \<^verbatim>\<open>get_instruction(0)\<close> returns the first instruction, stored at address 129.
\<close>

theorem memory_layout_counterexample:
  "py_index (data small_memory) 2 = Some (Num 9)
   \<and> py_index (data small_memory) 128 = Some (Num 0)
   \<and> py_index (data small_memory) 129 = Some (Ins halt_instr)
   \<and> get_instruction (PyInt 0) small_memory = Ok (Ins halt_instr) small_memory"
  by (simp add: small_memory_def Memory_init_def py_index_def get_instruction_def nth_append)

section \<open>Tick counts of the indirect accesses\<close>

text \<open>
  C2 (as amended). Executing one \<^verbatim>\<open>READ_NDR\<close> instruction to its end increments the
  tick counter by exactly 7, and executing one \<^verbatim>\<open>WR_NDR\<close> instruction to its end
  increments the tick counter by exactly 6.
\<close>

theorem indirect_ticks:
  assumes fetch: "get_instruction (pc cu) (mem cu) = Ok (Ins i) (mem cu)"
    and run: "decode_and_execute h cu = Ok u cu'"
  shows "(opcode i = READ_NDR \<longrightarrow> cu_tick cu' = cu_tick cu + 7)
       \<and> (opcode i = WR_NDR \<longrightarrow> cu_tick cu' = cu_tick cu + 6)"
proof -
  from run fetch have ex: "execute_micro_operation h (Ins i) cu = Ok u cu'"
    by (simp add: decode_fetched)
  have "cu_tick cu' = cu_tick cu + 7" if "opcode i = READ_NDR"
    using ex that by (auto simp: execute_micro_operation_def dest: read_indirect_ticks)
  moreover have "cu_tick cu' = cu_tick cu + 6" if "opcode i = WR_NDR"
    using ex that by (auto simp: execute_micro_operation_def dest: write_indirect_ticks)
  ultimately show ?thesis by blast
qed

text \<open>
  The theorem on a \<^verbatim>\<open>READ_NDR\<close> through the pointer at address 2, and on a \<^verbatim>\<open>WR_NDR\<close>
  through the same pointer.
\<close>

theorem indirect_ticks_witness:
  "get_instruction (pc read_ndr_example) (mem read_ndr_example)
     = Ok (Ins (op_instr READ_NDR)) (mem read_ndr_example)
   \<and> decode_and_execute plain_host read_ndr_example = Ok () read_ndr_after
   \<and> opcode (op_instr READ_NDR) = READ_NDR
   \<and> cu_tick read_ndr_after = cu_tick read_ndr_example + 7
   \<and> get_instruction (pc write_ndr_example) (mem write_ndr_example)
     = Ok (Ins (op_instr WR_NDR)) (mem write_ndr_example)
   \<and> decode_and_execute plain_host write_ndr_example = Ok () write_ndr_after
   \<and> opcode (op_instr WR_NDR) = WR_NDR
   \<and> cu_tick write_ndr_after = cu_tick write_ndr_example + 6"
proof -
  have r1: "get_instruction (pc read_ndr_example) (mem read_ndr_example)
     = Ok (Ins (op_instr READ_NDR)) (mem read_ndr_example)"
    by (simp add: read_ndr_example_def run_defs)
  have r2: "opcode (op_instr READ_NDR) = READ_NDR" by (simp add: op_instr_def)
  have w1: "get_instruction (pc write_ndr_example) (mem write_ndr_example)
     = Ok (Ins (op_instr WR_NDR)) (mem write_ndr_example)"
    by (simp add: write_ndr_example_def run_defs)
  have w2: "opcode (op_instr WR_NDR) = WR_NDR" by (simp add: op_instr_def)
  from indirect_ticks [OF r1 read_ndr_run] r2
  have r: "cu_tick read_ndr_after = cu_tick read_ndr_example + 7" by blast
  from indirect_ticks [OF w1 write_ndr_run] w2
  have w: "cu_tick write_ndr_after = cu_tick write_ndr_example + 6" by blast
  from r1 read_ndr_run r2 r w1 write_ndr_run w2 w show ?thesis by (intro conjI)
qed

text \<open>
  The claim as stated fails on the same two runs: from tick 0, \<^verbatim>\<open>READ_NDR\<close> ends at
  tick 7 and \<^verbatim>\<open>WR_NDR\<close> at tick 6, not at 5. So the program \<^verbatim>\<open>PUSH 2, READ_NDR, HALT\<close>
  runs for 1 + 7 ticks, and \<^verbatim>\<open>PUSH 99, PUSH 2, WRITE_NDR, HALT\<close> for 1 + 1 + 6.
\<close>

theorem indirect_ticks_counterexample:
  "get_instruction (pc read_ndr_example) (mem read_ndr_example)
     = Ok (Ins (op_instr READ_NDR)) (mem read_ndr_example)
   \<and> decode_and_execute plain_host read_ndr_example = Ok () read_ndr_after
   \<and> cu_tick read_ndr_example = 0 \<and> cu_tick read_ndr_after = 7
   \<and> get_instruction (pc write_ndr_example) (mem write_ndr_example)
     = Ok (Ins (op_instr WR_NDR)) (mem write_ndr_example)
   \<and> decode_and_execute plain_host write_ndr_example = Ok () write_ndr_after
   \<and> cu_tick write_ndr_example = 0 \<and> cu_tick write_ndr_after = 6
   \<and> simulation plain_host read_ndr_program 600 100 [] [0, 0, 3, 42] = Inr ([], 2, 8)
   \<and> simulation plain_host write_ndr_program 600 100 [] [0, 0, 3, 0] = Inr ([], 3, 8)"
  using read_ndr_program_run write_ndr_program_run
  unfolding read_ndr_after_def write_ndr_after_def
  by (simp add: read_ndr_example_def write_ndr_example_def run_defs
      micro_read_indirect_def micro_write_indirect_def)

section \<open>Stack shuffles\<close>

text \<open>
  C3 (as amended). Executing \<^verbatim>\<open>ROT\<close> on an operand stack of depth at least 3 makes
  the new top element equal to the old third-from-top, the new second-from-top equal
  to the old top, and the new third-from-top equal to the old second-from-top; the
  cells below the top three and the stack depth are unchanged, and exactly 1 tick
  elapses.
\<close>

theorem rot_effect:
  assumes wf: "dp_wf (data_path cu)"
    and fetch: "get_instruction (pc cu) (mem cu) = Ok (Ins i) (mem cu)"
    and op: "opcode i = ROT"
    and depth: "3 \<le> head (data_path cu)"
  shows "\<exists>cu' t0 t1 t2.
      get_tos 0 (data_path cu) = Ok t0 (data_path cu)
    \<and> get_tos 1 (data_path cu) = Ok t1 (data_path cu)
    \<and> get_tos 2 (data_path cu) = Ok t2 (data_path cu)
    \<and> decode_and_execute h cu = Ok () cu'
    \<and> get_tos 0 (data_path cu') = Ok t2 (data_path cu')
    \<and> get_tos 1 (data_path cu') = Ok t0 (data_path cu')
    \<and> get_tos 2 (data_path cu') = Ok t1 (data_path cu')
    \<and> head (data_path cu') = head (data_path cu)
    \<and> take (nat (head (data_path cu) - 3)) (stack (data_path cu'))
        = take (nat (head (data_path cu) - 3)) (stack (data_path cu))
    \<and> cu_tick cu' = cu_tick cu + 1"
proof -
  from fetch obtain p where p: "pc cu = PyInt p" by (auto dest: fetch_pc_int)
  let ?dp = "data_path cu"
  let ?n = "head ?dp"
  have len: "int (length (stack ?dp)) = dp_memory_size ?dp" "?n < dp_memory_size ?dp"
    using wf by (simp_all add: dp_wf_def)
  have run: "decode_and_execute h cu = micro_rotate i cu"
    using fetch op by (simp add: decode_fetched execute_micro_operation_def)
  have idx: "nat (?n - 3) \<noteq> nat (?n - 2)" "nat (?n - 2) \<noteq> nat (?n - 1)" "nat (?n - 3) \<noteq> nat (?n - 1)"
    "nat (?n - 1) < length (stack ?dp)" "nat (?n - 2) < length (stack ?dp)" "nat (?n - 3) < length (stack ?dp)"
    "nat (?n - 3) \<le> nat (?n - 2)" "nat (?n - 3) \<le> nat (?n - 1)"
    using depth len by linarith+
  show ?thesis
    unfolding run micro_rotate_run [OF wf depth p]
    using depth len idx
    by (simp add: get_tos_run)
qed

text \<open>The theorem on the stack 1, 2, 3.\<close>

theorem rot_effect_witness:
  "dp_wf (data_path rot_example)
   \<and> get_instruction (pc rot_example) (mem rot_example) = Ok (Ins (op_instr ROT)) (mem rot_example)
   \<and> opcode (op_instr ROT) = ROT
   \<and> 3 \<le> head (data_path rot_example)
   \<and> (\<exists>cu' t0 t1 t2.
      get_tos 0 (data_path rot_example) = Ok t0 (data_path rot_example)
    \<and> get_tos 1 (data_path rot_example) = Ok t1 (data_path rot_example)
    \<and> get_tos 2 (data_path rot_example) = Ok t2 (data_path rot_example)
    \<and> decode_and_execute plain_host rot_example = Ok () cu'
    \<and> get_tos 0 (data_path cu') = Ok t2 (data_path cu')
    \<and> get_tos 1 (data_path cu') = Ok t0 (data_path cu')
    \<and> get_tos 2 (data_path cu') = Ok t1 (data_path cu')
    \<and> head (data_path cu') = head (data_path rot_example)
    \<and> take (nat (head (data_path rot_example) - 3)) (stack (data_path cu'))
        = take (nat (head (data_path rot_example) - 3)) (stack (data_path rot_example))
    \<and> cu_tick cu' = cu_tick rot_example + 1)"
proof -
  have h1: "dp_wf (data_path rot_example)"
    by (simp add: rot_example_def machine_at_def dp_wf_def)
  have h2: "get_instruction (pc rot_example) (mem rot_example)
      = Ok (Ins (op_instr ROT)) (mem rot_example)"
    by (simp add: rot_example_def run_defs)
  have h3: "opcode (op_instr ROT) = ROT"
    by (simp add: op_instr_def)
  have h4: "3 \<le> head (data_path rot_example)"
    by (simp add: rot_example_def machine_at_def)
  from rot_effect [OF h1 h2 h3 h4, of plain_host] h1 h2 h3 h4 show ?thesis
    by (intro conjI)
qed

text \<open>
  The claim as stated fails there: the old second-from-top is 2 and the old third is 1,
  and after \<^verbatim>\<open>ROT\<close> the top is 1 (not 2) and the third-from-top is 2 (not unchanged).
  Likewise the program that pushes 201, 202, 203, executes \<^verbatim>\<open>ROT\<close> and prints the stack
  from the top prints 201, 203, 202.
\<close>

theorem rot_counterexample:
  "get_tos 0 (data_path rot_example) = Ok (Num 3) (data_path rot_example)
   \<and> get_tos 1 (data_path rot_example) = Ok (Num 2) (data_path rot_example)
   \<and> get_tos 2 (data_path rot_example) = Ok (Num 1) (data_path rot_example)
   \<and> decode_and_execute plain_host rot_example = Ok () rot_example_after
   \<and> get_tos 0 (data_path rot_example_after) = Ok (Num 1) (data_path rot_example_after)
   \<and> get_tos 1 (data_path rot_example_after) = Ok (Num 3) (data_path rot_example_after)
   \<and> get_tos 2 (data_path rot_example_after) = Ok (Num 2) (data_path rot_example_after)
   \<and> simulation plain_host rot_program 600 100 [] [] = Inr ([''201'', ''203'', ''202''], 10, 13)"
  using rot_program_run
  unfolding rot_example_after_def
  by (simp add: rot_example_def run_defs micro_rotate_def)

section \<open>Arithmetic instructions\<close>

text \<open>
  C4 (as amended). Executing \<^verbatim>\<open>INVERT\<close> on an operand stack of depth at least 1 whose
  top is a number, with \<open>t = int(top)\<close> (the top itself when it is an integer, the top
  truncated toward zero when it is a float), latches the ALU result \<open>-(t + 1)\<close>, pops one
  operand and pushes the result: the instruction returns, the accumulator and the new
  top are \<open>-(t + 1)\<close>, the stack depth is unchanged, every cell below the old top is
  preserved, and 2 ticks elapse. When the top is an instruction word, the instruction
  raises \<open>TypeError\<close> before any pop, push or tick.
\<close>

theorem invert_effect:
  assumes wf: "dp_wf (data_path cu)"
    and fetch: "get_instruction (pc cu) (mem cu) = Ok (Ins i) (mem cu)"
    and op: "opcode i = INV"
    and depth: "1 \<le> head (data_path cu)"
    and top: "get_tos 0 (data_path cu) = Ok c (data_path cu)"
  shows "(int_of c = Some t \<longrightarrow>
      (\<exists>cu'. decode_and_execute h cu = Ok () cu'
        \<and> alu (data_path cu') = Num (- (t + 1))
        \<and> get_tos 0 (data_path cu') = Ok (Num (- (t + 1))) (data_path cu')
        \<and> head (data_path cu') = head (data_path cu)
        \<and> take (nat (head (data_path cu) - 1)) (stack (data_path cu'))
            = take (nat (head (data_path cu) - 1)) (stack (data_path cu))
        \<and> cu_tick cu' = cu_tick cu + 2))
    \<and> (int_of c = None \<longrightarrow> decode_and_execute h cu = Raise TypeError cu)"
proof -
  from fetch obtain p where p: "pc cu = PyInt p" by (auto dest: fetch_pc_int)
  let ?dp = "data_path cu"
  have len: "int (length (stack ?dp)) = dp_memory_size ?dp" "head ?dp < dp_memory_size ?dp"
    using wf by (simp_all add: dp_wf_def)
  have run: "decode_and_execute h cu = micro_alu_operation h i cu"
    using fetch op by (simp add: decode_fetched execute_micro_operation_def)
  have k: "(1::int) = (if opcode i \<in> {NEG, INV} then 1 else 2)" using op by simp
  have idx: "nat (head ?dp - 1) < length (stack ?dp)" using depth len by linarith
  have number: "\<exists>cu'. decode_and_execute h cu = Ok () cu'
        \<and> alu (data_path cu') = Num (- (t + 1))
        \<and> get_tos 0 (data_path cu') = Ok (Num (- (t + 1))) (data_path cu')
        \<and> head (data_path cu') = head (data_path cu)
        \<and> take (nat (head (data_path cu) - 1)) (stack (data_path cu'))
            = take (nat (head (data_path cu) - 1)) (stack (data_path cu))
        \<and> cu_tick cu' = cu_tick cu + 2"
    if t: "int_of c = Some t"
  proof -
    have latch: "latch_alu h (opcode i) ?dp = Ok () (?dp\<lparr>alu := Num (- (t + 1))\<rparr>)"
      using op tos_int_run [OF top t] by simp
    show ?thesis
      unfolding run micro_alu_run [OF wf p latch k depth]
      using depth len idx by (simp add: get_tos_run)
  qed
  have word: "decode_and_execute h cu = Raise TypeError cu" if n: "int_of c = None"
  proof -
    have "latch_alu h (opcode i) ?dp = Raise TypeError ?dp"
      using op tos_int_raise [OF top n] by simp
    then have "micro_alu_operation h i cu = Raise TypeError cu"
      by (simp add: micro_alu_operation_def in_dp_def)
    with run show ?thesis by simp
  qed
  from number word show ?thesis by blast
qed

text \<open>
  The theorem on the stack 9, 5: the top becomes \<open>-6\<close> and the 9 below it stays; and on
  the stack 9, \<^verbatim>\<open>HALT\<close>, with an instruction word on top: \<open>TypeError\<close>. And the program that
  pushes 900 and 300, executes \<^verbatim>\<open>INVERT\<close> and prints the stack from the top prints -301
  and 900.
\<close>

theorem invert_effect_witness:
  "dp_wf (data_path invert_example)
   \<and> get_instruction (pc invert_example) (mem invert_example)
       = Ok (Ins (op_instr INV)) (mem invert_example)
   \<and> opcode (op_instr INV) = INV
   \<and> 1 \<le> head (data_path invert_example)
   \<and> get_tos 0 (data_path invert_example) = Ok (Num 5) (data_path invert_example)
   \<and> int_of (Num 5) = Some 5
   \<and> (\<exists>cu'. decode_and_execute plain_host invert_example = Ok () cu'
      \<and> alu (data_path cu') = Num (- (5 + 1))
      \<and> get_tos 0 (data_path cu') = Ok (Num (- (5 + 1))) (data_path cu')
      \<and> head (data_path cu') = head (data_path invert_example)
      \<and> take (nat (head (data_path invert_example) - 1)) (stack (data_path cu'))
          = take (nat (head (data_path invert_example) - 1)) (stack (data_path invert_example))
      \<and> cu_tick cu' = cu_tick invert_example + 2)
   \<and> dp_wf (data_path invert_word_example)
   \<and> get_instruction (pc invert_word_example) (mem invert_word_example)
       = Ok (Ins (op_instr INV)) (mem invert_word_example)
   \<and> 1 \<le> head (data_path invert_word_example)
   \<and> get_tos 0 (data_path invert_word_example)
       = Ok (Ins halt_instr) (data_path invert_word_example)
   \<and> int_of (Ins halt_instr) = None
   \<and> decode_and_execute plain_host invert_word_example = Raise TypeError invert_word_example
   \<and> simulation plain_host invert_program 600 100 [] [] = Inr ([''-301'', ''900''], 7, 10)"
proof -
  have h1: "dp_wf (data_path invert_example)"
    by (simp add: example_defs machine_at_def dp_wf_def)
  have h2: "get_instruction (pc invert_example) (mem invert_example)
      = Ok (Ins (op_instr INV)) (mem invert_example)"
    by (simp add: example_defs run_defs)
  have h3: "opcode (op_instr INV) = INV"
    by (simp add: op_instr_def)
  have h4: "1 \<le> head (data_path invert_example)"
    by (simp add: example_defs machine_at_def)
  have h5: "get_tos 0 (data_path invert_example) = Ok (Num 5) (data_path invert_example)"
    by (simp add: example_defs run_defs)
  have h6: "int_of (Num 5) = Some 5" by simp
  have w1: "dp_wf (data_path invert_word_example)"
    by (simp add: example_defs machine_at_def dp_wf_def)
  have w2: "get_instruction (pc invert_word_example) (mem invert_word_example)
      = Ok (Ins (op_instr INV)) (mem invert_word_example)"
    by (simp add: example_defs run_defs)
  have w4: "1 \<le> head (data_path invert_word_example)"
    by (simp add: example_defs machine_at_def)
  have w5: "get_tos 0 (data_path invert_word_example)
      = Ok (Ins halt_instr) (data_path invert_word_example)"
    by (simp add: example_defs run_defs)
  have w6: "int_of (Ins halt_instr) = None" by simp
  from invert_effect [OF h1 h2 h3 h4 h5, of 5 plain_host, THEN conjunct1, rule_format, OF h6]
    invert_effect [OF w1 w2 h3 w4 w5, of 0 plain_host, THEN conjunct2, rule_format, OF w6]
    h1 h2 h3 h4 h5 h6 w1 w2 w4 w5 w6 invert_program_run
  show ?thesis
    by (intro conjI)
qed

text \<open>
  The claim as stated, for every stack of depth at least 1, fails on two stacks that
  programs reach. With the float \<^verbatim>\<open>0.5\<close> on top, which \<^verbatim>\<open>PUSH -1, PUSH 2, POW\<close> leaves,
  \<^verbatim>\<open>INVERT\<close> pushes \<open>-(int(0.5) + 1) = -1\<close>, where \<open>-(top(0) + 1)\<close> is \<open>-1.5\<close>; the program
  prints -1. With an instruction word on top, which \<^verbatim>\<open>PUSH 599, READ_DIR\<close> leaves,
  \<^verbatim>\<open>INVERT\<close> raises \<open>TypeError\<close>, which leaves \<^verbatim>\<open>simulation\<close>.
\<close>

theorem invert_counterexample:
  "1 \<le> head (data_path invert_float_example)
   \<and> get_tos 0 (data_path invert_float_example) = Ok (Flt (1 / 2)) (data_path invert_float_example)
   \<and> decode_and_execute plain_host invert_float_example = Ok () invert_float_after
   \<and> get_tos 0 (data_path invert_float_after) = Ok (Num (- 1)) (data_path invert_float_after)
   \<and> alu (data_path invert_float_after) = Num (- 1)
   \<and> (of_int (- 1) :: rat) \<noteq> - (1 / 2 + 1)
   \<and> simulation plain_host invert_float_program 600 100 [] [] = Inr ([''-1''], 6, 9)
   \<and> 1 \<le> head (data_path invert_word_example)
   \<and> get_tos 0 (data_path invert_word_example)
       = Ok (Ins halt_instr) (data_path invert_word_example)
   \<and> decode_and_execute plain_host invert_word_example = Raise TypeError invert_word_example
   \<and> simulation plain_host invert_word_program 600 100 [] [] = Inl TypeError"
  using invert_float_program_run invert_word_program_run
  unfolding invert_float_after_def
  by (simp add: example_defs run_defs micro_alu_operation_def)

text \<open>
  C8 (as amended). Executing \<^verbatim>\<open>POW\<close> on an operand stack of depth at least 2 whose top
  and second-from-top are numbers, with \<open>t0 = int(top)\<close> and \<open>t1 = int(second)\<close> (the
  elements themselves when they are integers, truncated toward zero when they are
  floats): unless \<open>t1 < 0\<close> and either \<open>t0 = 0\<close> or one of the two is beyond the range of
  the floats, the instruction pops both and pushes \<open>t0 ** t1\<close> (base = stack top,
  exponent = second-from-top), in exactly 2 ticks; the result is the integer power when
  \<open>t1 \<ge> 0\<close> and the float power when \<open>t1 < 0\<close>. With \<open>t1 < 0\<close> and an operand beyond the
  floats it raises \<open>OverflowError\<close>; with \<open>t1 < 0\<close>, both within the floats and \<open>t0 = 0\<close> it
  raises \<open>ZeroDivisionError\<close>; with an instruction word as one of the two elements it
  raises \<open>TypeError\<close>; each before any pop, push or tick.
\<close>

theorem pow_effect:
  assumes wf: "dp_wf (data_path cu)"
    and fetch: "get_instruction (pc cu) (mem cu) = Ok (Ins i) (mem cu)"
    and op: "opcode i = POW"
    and depth: "2 \<le> head (data_path cu)"
    and c0: "get_tos 0 (data_path cu) = Ok c0 (data_path cu)"
    and c1: "get_tos 1 (data_path cu) = Ok c1 (data_path cu)"
  shows "(int_of c0 = Some t0 \<and> int_of c1 = Some t1
        \<and> (0 \<le> t1 \<or> (t0 \<noteq> 0 \<and> float_fits t0 \<and> float_fits t1)) \<longrightarrow>
      (\<exists>cu'. decode_and_execute h cu = Ok () cu'
        \<and> get_tos 0 (data_path cu')
            = Ok (if 0 \<le> t1 then Num (t0 ^ nat t1) else Flt (float_pow h t0 t1)) (data_path cu')
        \<and> head (data_path cu') = head (data_path cu) - 1
        \<and> take (nat (head (data_path cu) - 2)) (stack (data_path cu'))
            = take (nat (head (data_path cu) - 2)) (stack (data_path cu))
        \<and> cu_tick cu' = cu_tick cu + 2))
    \<and> (int_of c0 = Some t0 \<and> int_of c1 = Some t1 \<and> t1 < 0
        \<and> \<not> (float_fits t0 \<and> float_fits t1) \<longrightarrow>
        decode_and_execute h cu = Raise OverflowError cu)
    \<and> (int_of c0 = Some t0 \<and> int_of c1 = Some t1 \<and> t1 < 0
        \<and> float_fits t0 \<and> float_fits t1 \<and> t0 = 0 \<longrightarrow>
        decode_and_execute h cu = Raise ZeroDivisionError cu)
    \<and> (int_of c0 = None \<or> int_of c1 = None \<longrightarrow>
        decode_and_execute h cu = Raise TypeError cu)"
proof -
  from fetch obtain p where p: "pc cu = PyInt p" by (auto dest: fetch_pc_int)
  let ?dp = "data_path cu"
  let ?r = "if 0 \<le> t1 then Num (t0 ^ nat t1) else Flt (float_pow h t0 t1)"
  have len: "int (length (stack ?dp)) = dp_memory_size ?dp" "head ?dp < dp_memory_size ?dp"
    using wf by (simp_all add: dp_wf_def)
  have run: "decode_and_execute h cu = micro_alu_operation h i cu"
    using fetch op by (simp add: decode_fetched execute_micro_operation_def)
  have k: "(2::int) = (if opcode i \<in> {NEG, INV} then 1 else 2)" using op by simp
  have idx: "nat (head ?dp - 2) < length (stack ?dp)" using depth len by linarith
  have raises: "decode_and_execute h cu = Raise e cu"
    if "latch_alu h (opcode i) ?dp = Raise e ?dp" for e
    using that run by (simp add: micro_alu_operation_def in_dp_def)
  have pushed: "\<exists>cu'. decode_and_execute h cu = Ok () cu'
        \<and> get_tos 0 (data_path cu') = Ok ?r (data_path cu')
        \<and> head (data_path cu') = head (data_path cu) - 1
        \<and> take (nat (head (data_path cu) - 2)) (stack (data_path cu'))
            = take (nat (head (data_path cu) - 2)) (stack (data_path cu))
        \<and> cu_tick cu' = cu_tick cu + 2"
    if i0: "int_of c0 = Some t0" and i1: "int_of c1 = Some t1"
      and ok: "0 \<le> t1 \<or> (t0 \<noteq> 0 \<and> float_fits t0 \<and> float_fits t1)"
  proof -
    have latch: "latch_alu h (opcode i) ?dp = Ok () (?dp\<lparr>alu := ?r\<rparr>)"
      using op tos_int_run [OF c0 i0] tos_int_run [OF c1 i1] ok by auto
    show ?thesis
      unfolding run micro_alu_run [OF wf p latch k depth]
      using depth len idx by (simp add: get_tos_run)
  qed
  have overflow: "decode_and_execute h cu = Raise OverflowError cu"
    if i0: "int_of c0 = Some t0" and i1: "int_of c1 = Some t1" and "t1 < 0"
      and "\<not> (float_fits t0 \<and> float_fits t1)"
  proof (rule raises)
    show "latch_alu h (opcode i) ?dp = Raise OverflowError ?dp"
      using op tos_int_run [OF c0 i0] tos_int_run [OF c1 i1] that(3,4) by auto
  qed
  have zero: "decode_and_execute h cu = Raise ZeroDivisionError cu"
    if i0: "int_of c0 = Some t0" and i1: "int_of c1 = Some t1" and "t1 < 0"
      and "float_fits t0" "float_fits t1" "t0 = 0"
  proof (rule raises)
    show "latch_alu h (opcode i) ?dp = Raise ZeroDivisionError ?dp"
      using op tos_int_run [OF c0 i0] tos_int_run [OF c1 i1] that(3-) by auto
  qed
  have word: "decode_and_execute h cu = Raise TypeError cu"
    if "int_of c0 = None \<or> int_of c1 = None"
  proof (rule raises)
    show "latch_alu h (opcode i) ?dp = Raise TypeError ?dp"
    proof (cases "int_of c0")
      case None
      with op tos_int_raise [OF c0] show ?thesis by simp
    next
      case (Some a)
      with that have "int_of c1 = None" by simp
      with op tos_int_run [OF c0 Some] tos_int_raise [OF c1] show ?thesis by simp
    qed
  qed
  from pushed overflow zero word show ?thesis by blast
qed

text \<open>
  The theorem on the stack 3, 2 (2 on top): the result is \<open>2 ** 3 = 8\<close>, not \<open>3 ** 2\<close>; on
  the stack -1, 2: the result is the float \<^verbatim>\<open>2 ** -1 = 0.5\<close>; on the stack -1, 0:
  \<open>ZeroDivisionError\<close>; on the stack -1, \<open>2 ^ 1024\<close>: \<open>OverflowError\<close>; and on the stack 2,
  \<^verbatim>\<open>HALT\<close>: \<open>TypeError\<close>. And the program that pushes 5 and 3, executes \<^verbatim>\<open>POW\<close> and prints
  the top prints \<open>3 ** 5 = 243\<close>, and the one that pushes -1 and -2 prints
  \<^verbatim>\<open>(-2) ** -1 = -0.5\<close>.
\<close>

theorem pow_effect_witness:
  "dp_wf (data_path pow_example)
   \<and> get_instruction (pc pow_example) (mem pow_example) = Ok (Ins (op_instr POW)) (mem pow_example)
   \<and> opcode (op_instr POW) = POW
   \<and> 2 \<le> head (data_path pow_example)
   \<and> get_tos 0 (data_path pow_example) = Ok (Num 2) (data_path pow_example)
   \<and> get_tos 1 (data_path pow_example) = Ok (Num 3) (data_path pow_example)
   \<and> int_of (Num 2) = Some 2 \<and> int_of (Num 3) = Some 3 \<and> (0::int) \<le> 3
   \<and> (\<exists>cu'. decode_and_execute plain_host pow_example = Ok () cu'
        \<and> get_tos 0 (data_path cu') = Ok (Num 8) (data_path cu')
        \<and> head (data_path cu') = head (data_path pow_example) - 1
        \<and> take (nat (head (data_path pow_example) - 2)) (stack (data_path cu'))
            = take (nat (head (data_path pow_example) - 2)) (stack (data_path pow_example))
        \<and> cu_tick cu' = cu_tick pow_example + 2)
   \<and> dp_wf (data_path pow_float_example)
   \<and> get_instruction (pc pow_float_example) (mem pow_float_example)
       = Ok (Ins (op_instr POW)) (mem pow_float_example)
   \<and> 2 \<le> head (data_path pow_float_example)
   \<and> get_tos 0 (data_path pow_float_example) = Ok (Num 2) (data_path pow_float_example)
   \<and> get_tos 1 (data_path pow_float_example) = Ok (Num (- 1)) (data_path pow_float_example)
   \<and> int_of (Num (- 1)) = Some (- 1) \<and> (2::int) \<noteq> 0 \<and> float_fits 2 \<and> float_fits (- 1)
   \<and> (\<exists>cu'. decode_and_execute plain_host pow_float_example = Ok () cu'
        \<and> get_tos 0 (data_path cu') = Ok (Flt (1 / 2)) (data_path cu')
        \<and> head (data_path cu') = head (data_path pow_float_example) - 1
        \<and> take (nat (head (data_path pow_float_example) - 2)) (stack (data_path cu'))
            = take (nat (head (data_path pow_float_example) - 2))
                (stack (data_path pow_float_example))
        \<and> cu_tick cu' = cu_tick pow_float_example + 2)
   \<and> dp_wf (data_path pow_big_example)
   \<and> get_instruction (pc pow_big_example) (mem pow_big_example)
       = Ok (Ins (op_instr POW)) (mem pow_big_example)
   \<and> 2 \<le> head (data_path pow_big_example)
   \<and> get_tos 0 (data_path pow_big_example) = Ok (Num (2 ^ 1024)) (data_path pow_big_example)
   \<and> get_tos 1 (data_path pow_big_example) = Ok (Num (- 1)) (data_path pow_big_example)
   \<and> \<not> float_fits (2 ^ 1024)
   \<and> decode_and_execute plain_host pow_big_example = Raise OverflowError pow_big_example
   \<and> dp_wf (data_path pow_zero_example)
   \<and> get_instruction (pc pow_zero_example) (mem pow_zero_example)
       = Ok (Ins (op_instr POW)) (mem pow_zero_example)
   \<and> 2 \<le> head (data_path pow_zero_example)
   \<and> get_tos 0 (data_path pow_zero_example) = Ok (Num 0) (data_path pow_zero_example)
   \<and> get_tos 1 (data_path pow_zero_example) = Ok (Num (- 1)) (data_path pow_zero_example)
   \<and> float_fits 0
   \<and> decode_and_execute plain_host pow_zero_example = Raise ZeroDivisionError pow_zero_example
   \<and> dp_wf (data_path pow_word_example)
   \<and> get_instruction (pc pow_word_example) (mem pow_word_example)
       = Ok (Ins (op_instr POW)) (mem pow_word_example)
   \<and> 2 \<le> head (data_path pow_word_example)
   \<and> get_tos 0 (data_path pow_word_example) = Ok (Ins halt_instr) (data_path pow_word_example)
   \<and> get_tos 1 (data_path pow_word_example) = Ok (Num 2) (data_path pow_word_example)
   \<and> int_of (Ins halt_instr) = None
   \<and> decode_and_execute plain_host pow_word_example = Raise TypeError pow_word_example
   \<and> simulation plain_host pow_program 600 100 [] [] = Inr ([''243''], 5, 7)
   \<and> simulation plain_host pow_float_program 600 100 [] [] = Inr ([''-0.5''], 5, 7)"
proof -
  have h3: "opcode (op_instr POW) = POW"
    by (simp add: op_instr_def)
  have i2: "int_of (Num 2) = Some 2" and i3: "int_of (Num 3) = Some 3"
    and im: "int_of (Num (- 1)) = Some (- 1)" and i0: "int_of (Num 0) = Some 0"
    and ib: "int_of (Num (2 ^ 1024)) = Some (2 ^ 1024)" and iw: "int_of (Ins halt_instr) = None"
    by simp_all
  have f2: "float_fits 2" and fm: "float_fits (- 1)" and f0: "float_fits 0"
    by (simp_all add: float_fits_small)
  have fb: "\<not> float_fits (2 ^ 1024)"
    by (simp add: float_fits_def)
  have n3: "(0::int) \<le> 3" and n2: "(2::int) \<noteq> 0" and m1: "(- 1 :: int) < 0" by simp_all

  have a1: "dp_wf (data_path pow_example)"
    by (simp add: example_defs machine_at_def dp_wf_def)
  have a2: "get_instruction (pc pow_example) (mem pow_example)
      = Ok (Ins (op_instr POW)) (mem pow_example)"
    by (simp add: example_defs run_defs)
  have a4: "2 \<le> head (data_path pow_example)"
    by (simp add: example_defs machine_at_def)
  have a5: "get_tos 0 (data_path pow_example) = Ok (Num 2) (data_path pow_example)"
    by (simp add: example_defs run_defs)
  have a6: "get_tos 1 (data_path pow_example) = Ok (Num 3) (data_path pow_example)"
    by (simp add: example_defs run_defs)
  have p: "(if (0::int) \<le> 3 then Num (2 ^ nat 3) else Flt (float_pow plain_host 2 3)) = Num 8"
    by (simp add: eval_nat_numeral)
  from n3 have g3: "(0::int) \<le> 3 \<or> ((2::int) \<noteq> 0 \<and> float_fits 2 \<and> float_fits 3)" by simp
  from pow_effect [OF a1 a2 h3 a4 a5 a6, of 2 3 plain_host, THEN conjunct1, rule_format,
      OF conjI [OF i2 conjI [OF i3 g3]]]
  have A: "\<exists>cu'. decode_and_execute plain_host pow_example = Ok () cu'
        \<and> get_tos 0 (data_path cu') = Ok (Num 8) (data_path cu')
        \<and> head (data_path cu') = head (data_path pow_example) - 1
        \<and> take (nat (head (data_path pow_example) - 2)) (stack (data_path cu'))
            = take (nat (head (data_path pow_example) - 2)) (stack (data_path pow_example))
        \<and> cu_tick cu' = cu_tick pow_example + 2"
    unfolding p .

  have b1: "dp_wf (data_path pow_float_example)"
    by (simp add: example_defs machine_at_def dp_wf_def)
  have b2: "get_instruction (pc pow_float_example) (mem pow_float_example)
      = Ok (Ins (op_instr POW)) (mem pow_float_example)"
    by (simp add: example_defs run_defs)
  have b4: "2 \<le> head (data_path pow_float_example)"
    by (simp add: example_defs machine_at_def)
  have b5: "get_tos 0 (data_path pow_float_example) = Ok (Num 2) (data_path pow_float_example)"
    by (simp add: example_defs run_defs)
  have b6: "get_tos 1 (data_path pow_float_example) = Ok (Num (- 1)) (data_path pow_float_example)"
    by (simp add: example_defs run_defs)
  have q: "(if (0::int) \<le> - 1 then Num (2 ^ nat (- 1)) else Flt (float_pow plain_host 2 (- 1)))
      = Flt (1 / 2)"
    by (simp add: plain_host_def)
  from n2 f2 fm have gm: "(0::int) \<le> - 1 \<or> ((2::int) \<noteq> 0 \<and> float_fits 2 \<and> float_fits (- 1))"
    by simp
  from pow_effect [OF b1 b2 h3 b4 b5 b6, of 2 "- 1" plain_host, THEN conjunct1, rule_format,
      OF conjI [OF i2 conjI [OF im gm]]]
  have B: "\<exists>cu'. decode_and_execute plain_host pow_float_example = Ok () cu'
        \<and> get_tos 0 (data_path cu') = Ok (Flt (1 / 2)) (data_path cu')
        \<and> head (data_path cu') = head (data_path pow_float_example) - 1
        \<and> take (nat (head (data_path pow_float_example) - 2)) (stack (data_path cu'))
            = take (nat (head (data_path pow_float_example) - 2))
                (stack (data_path pow_float_example))
        \<and> cu_tick cu' = cu_tick pow_float_example + 2"
    unfolding q .

  have c1: "dp_wf (data_path pow_big_example)"
    by (simp add: example_defs machine_at_def dp_wf_def)
  have c2: "get_instruction (pc pow_big_example) (mem pow_big_example)
      = Ok (Ins (op_instr POW)) (mem pow_big_example)"
    by (simp add: example_defs run_defs)
  have c4: "2 \<le> head (data_path pow_big_example)"
    by (simp add: example_defs machine_at_def)
  have c5: "get_tos 0 (data_path pow_big_example) = Ok (Num (2 ^ 1024)) (data_path pow_big_example)"
    by (simp add: example_defs run_defs)
  have c6: "get_tos 1 (data_path pow_big_example) = Ok (Num (- 1)) (data_path pow_big_example)"
    by (simp add: example_defs run_defs)
  from fb have nb: "\<not> (float_fits (2 ^ 1024) \<and> float_fits (- 1))" by simp
  from pow_effect [OF c1 c2 h3 c4 c5 c6, of "2 ^ 1024" "- 1" plain_host,
      THEN conjunct2, THEN conjunct1, rule_format, OF conjI [OF ib conjI [OF im conjI [OF m1 nb]]]]
  have C: "decode_and_execute plain_host pow_big_example = Raise OverflowError pow_big_example" .

  have d1: "dp_wf (data_path pow_zero_example)"
    by (simp add: example_defs machine_at_def dp_wf_def)
  have d2: "get_instruction (pc pow_zero_example) (mem pow_zero_example)
      = Ok (Ins (op_instr POW)) (mem pow_zero_example)"
    by (simp add: example_defs run_defs)
  have d4: "2 \<le> head (data_path pow_zero_example)"
    by (simp add: example_defs machine_at_def)
  have d5: "get_tos 0 (data_path pow_zero_example) = Ok (Num 0) (data_path pow_zero_example)"
    by (simp add: example_defs run_defs)
  have d6: "get_tos 1 (data_path pow_zero_example) = Ok (Num (- 1)) (data_path pow_zero_example)"
    by (simp add: example_defs run_defs)
  from pow_effect [OF d1 d2 h3 d4 d5 d6, of 0 "- 1" plain_host,
      THEN conjunct2, THEN conjunct2, THEN conjunct1, rule_format,
      OF conjI [OF i0 conjI [OF im conjI [OF m1 conjI [OF f0 conjI [OF fm refl]]]]]]
  have D: "decode_and_execute plain_host pow_zero_example = Raise ZeroDivisionError pow_zero_example" .

  have e1: "dp_wf (data_path pow_word_example)"
    by (simp add: example_defs machine_at_def dp_wf_def)
  have e2: "get_instruction (pc pow_word_example) (mem pow_word_example)
      = Ok (Ins (op_instr POW)) (mem pow_word_example)"
    by (simp add: example_defs run_defs)
  have e4: "2 \<le> head (data_path pow_word_example)"
    by (simp add: example_defs machine_at_def)
  have e5: "get_tos 0 (data_path pow_word_example) = Ok (Ins halt_instr) (data_path pow_word_example)"
    by (simp add: example_defs run_defs)
  have e6: "get_tos 1 (data_path pow_word_example) = Ok (Num 2) (data_path pow_word_example)"
    by (simp add: example_defs run_defs)
  from pow_effect [OF e1 e2 h3 e4 e5 e6, of 0 0 plain_host,
      THEN conjunct2, THEN conjunct2, THEN conjunct2, rule_format, OF disjI1 [OF iw]]
  have E: "decode_and_execute plain_host pow_word_example = Raise TypeError pow_word_example" .

  from a1 a2 h3 a4 a5 a6 i2 i3 n3 A b1 b2 b4 b5 b6 im n2 f2 fm B c1 c2 c4 c5 c6 fb C
    d1 d2 d4 d5 d6 f0 D e1 e2 e4 e5 e6 iw E pow_program_run pow_float_program_run
  show ?thesis
    by (intro conjI)
qed

text \<open>
  The claim as stated, for every stack of depth at least 2, fails on the stack -1, 0
  (0 on top): \<^verbatim>\<open>0 ** -1\<close> raises \<open>ZeroDivisionError\<close>, and the instruction pushes nothing;
  the error leaves \<^verbatim>\<open>simulation\<close> when the program \<^verbatim>\<open>PUSH -1, PUSH 0, POW, HALT\<close> is run.
  It fails on the stack -1, \<open>2 ^ 1024\<close>, where the base does not convert to a float. And
  it fails on the stack 2, \<^verbatim>\<open>0.5\<close> (the float on top), which \<^verbatim>\<open>PUSH 2, PUSH -1, PUSH 2, POW\<close>
  leaves: \<^verbatim>\<open>POW\<close> pushes \<open>int(0.5) ** 2 = 0\<close>, where \<open>t0 ** t1\<close> is \<open>0.25\<close>; the program prints
  the character of code 0.
\<close>

theorem pow_counterexample:
  "2 \<le> head (data_path pow_zero_example)
   \<and> get_tos 0 (data_path pow_zero_example) = Ok (Num 0) (data_path pow_zero_example)
   \<and> get_tos 1 (data_path pow_zero_example) = Ok (Num (- 1)) (data_path pow_zero_example)
   \<and> decode_and_execute plain_host pow_zero_example = Raise ZeroDivisionError pow_zero_example
   \<and> simulation plain_host pow_zero_program 600 100 [] [] = Inl ZeroDivisionError
   \<and> 2 \<le> head (data_path pow_big_example)
   \<and> get_tos 0 (data_path pow_big_example) = Ok (Num (2 ^ 1024)) (data_path pow_big_example)
   \<and> get_tos 1 (data_path pow_big_example) = Ok (Num (- 1)) (data_path pow_big_example)
   \<and> decode_and_execute plain_host pow_big_example = Raise OverflowError pow_big_example
   \<and> 2 \<le> head (data_path pow_trunc_example)
   \<and> get_tos 0 (data_path pow_trunc_example) = Ok (Flt (1 / 2)) (data_path pow_trunc_example)
   \<and> get_tos 1 (data_path pow_trunc_example) = Ok (Num 2) (data_path pow_trunc_example)
   \<and> decode_and_execute plain_host pow_trunc_example = Ok () pow_trunc_after
   \<and> get_tos 0 (data_path pow_trunc_after) = Ok (Num 0) (data_path pow_trunc_after)
   \<and> (of_int 0 :: rat) \<noteq> (1 / 2) ^ 2
   \<and> simulation plain_host pow_trunc_program 600 100 [] [] = Inr ([[CHR 0x00]], 7, 10)"
  using pow_zero_program_run pow_trunc_program_run
  unfolding pow_trunc_after_def
  by (simp add: example_defs run_defs micro_alu_operation_def float_fits_def)

text \<open>
  C10. Executing \<^verbatim>\<open>DIV\<close> on an operand stack of depth at least 2 pops two operands,
  takes 2 ticks and pushes the content of the ALU accumulator as it was before the
  instruction, whatever the two operands are; the accumulator itself is unchanged.
  The accumulator is 0 in the initial state, and an instruction changes it only when
  its opcode is one of \<^verbatim>\<open>MOD\<close>, \<^verbatim>\<open>PLUS\<close>, \<^verbatim>\<open>MULT\<close>, \<^verbatim>\<open>POW\<close>, \<^verbatim>\<open>LT\<close>, \<^verbatim>\<open>NEG\<close>,
  \<^verbatim>\<open>INVERT\<close> (the ALU operations with a case in \<^verbatim>\<open>latch_alu\<close>); so what \<^verbatim>\<open>DIV\<close>
  pushes is the result of the most recent of those, or 0 if there was none.
\<close>

theorem div_pushes_accumulator:
  "(dp_wf (data_path cu) \<and> get_instruction (pc cu) (mem cu) = Ok (Ins i) (mem cu)
      \<and> opcode i = DIV \<and> 2 \<le> head (data_path cu) \<longrightarrow>
      (\<exists>cu'. decode_and_execute h cu = Ok () cu'
        \<and> get_tos 0 (data_path cu') = Ok (alu (data_path cu)) (data_path cu')
        \<and> alu (data_path cu') = alu (data_path cu)
        \<and> head (data_path cu') = head (data_path cu) - 1
        \<and> take (nat (head (data_path cu) - 2)) (stack (data_path cu'))
            = take (nat (head (data_path cu) - 2)) (stack (data_path cu))
        \<and> cu_tick cu' = cu_tick cu + 2))
   \<and> (initial_unit code ms inp D = Inr cu0 \<longrightarrow> alu (data_path cu0) = Num 0)
   \<and> (get_instruction (pc cu) (mem cu) = Ok (Ins j) (mem cu)
        \<and> opcode j \<notin> {MOD, PLUS, MULT, POW, LT, NEG, INV}
        \<and> decode_and_execute h cu = Ok u cu2 \<longrightarrow>
        alu (data_path cu2) = alu (data_path cu))"
  using div_run [of cu i h] initial_unit_alu [of code ms inp D cu0] alu_kept [of cu j h u cu2]
  by blast

text \<open>
  The theorem on the stack 10, 2 with 7 in the accumulator: \<^verbatim>\<open>DIV\<close> pushes 7. And the
  program that adds 300 and 400, pushes 10 and 2, executes \<^verbatim>\<open>DIV\<close> and prints the top
  prints 700, the sum that \<^verbatim>\<open>PLUS\<close> latched.
\<close>

theorem div_pushes_accumulator_witness:
  "dp_wf (data_path div_example)
   \<and> get_instruction (pc div_example) (mem div_example) = Ok (Ins (op_instr DIV)) (mem div_example)
   \<and> opcode (op_instr DIV) = DIV
   \<and> 2 \<le> head (data_path div_example)
   \<and> alu (data_path div_example) = Num 7
   \<and> get_tos 0 (data_path div_example) = Ok (Num 2) (data_path div_example)
   \<and> get_tos 1 (data_path div_example) = Ok (Num 10) (data_path div_example)
   \<and> (\<exists>cu'. decode_and_execute plain_host div_example = Ok () cu'
        \<and> get_tos 0 (data_path cu') = Ok (Num 7) (data_path cu')
        \<and> alu (data_path cu') = Num 7
        \<and> head (data_path cu') = head (data_path div_example) - 1
        \<and> take (nat (head (data_path div_example) - 2)) (stack (data_path cu'))
            = take (nat (head (data_path div_example) - 2)) (stack (data_path div_example))
        \<and> cu_tick cu' = cu_tick div_example + 2)
   \<and> simulation plain_host div_program 600 100 [] [] = Inr ([''700''], 8, 11)"
proof -
  have h1: "dp_wf (data_path div_example)"
    by (simp add: example_defs machine_at_def dp_wf_def)
  have h2: "get_instruction (pc div_example) (mem div_example)
      = Ok (Ins (op_instr DIV)) (mem div_example)"
    by (simp add: example_defs run_defs)
  have h3: "opcode (op_instr DIV) = DIV"
    by (simp add: op_instr_def)
  have h4: "2 \<le> head (data_path div_example)"
    by (simp add: example_defs machine_at_def)
  have a: "alu (data_path div_example) = Num 7"
    by (simp add: example_defs machine_at_def)
  have t0: "get_tos 0 (data_path div_example) = Ok (Num 2) (data_path div_example)"
    by (simp add: example_defs run_defs)
  have t1: "get_tos 1 (data_path div_example) = Ok (Num 10) (data_path div_example)"
    by (simp add: example_defs run_defs)
  from div_pushes_accumulator [of div_example "op_instr DIV" plain_host, THEN conjunct1, rule_format]
    h1 h2 h3 h4
  have "\<exists>cu'. decode_and_execute plain_host div_example = Ok () cu'
        \<and> get_tos 0 (data_path cu') = Ok (alu (data_path div_example)) (data_path cu')
        \<and> alu (data_path cu') = alu (data_path div_example)
        \<and> head (data_path cu') = head (data_path div_example) - 1
        \<and> take (nat (head (data_path div_example) - 2)) (stack (data_path cu'))
            = take (nat (head (data_path div_example) - 2)) (stack (data_path div_example))
        \<and> cu_tick cu' = cu_tick div_example + 2"
    by blast
  then have "\<exists>cu'. decode_and_execute plain_host div_example = Ok () cu'
        \<and> get_tos 0 (data_path cu') = Ok (Num 7) (data_path cu')
        \<and> alu (data_path cu') = Num 7
        \<and> head (data_path cu') = head (data_path div_example) - 1
        \<and> take (nat (head (data_path div_example) - 2)) (stack (data_path cu'))
            = take (nat (head (data_path div_example) - 2)) (stack (data_path div_example))
        \<and> cu_tick cu' = cu_tick div_example + 2"
    unfolding a .
  with h1 h2 h3 h4 a t0 t1 div_program_run show ?thesis
    by (intro conjI)
qed

section \<open>Dispatch\<close>

text \<open>
  C5 (as amended). The dispatch of \<^verbatim>\<open>execute_micro_operation\<close> has a handler for every
  opcode of the enumeration except \<^verbatim>\<open>MINUS\<close> and \<^verbatim>\<open>PRINT\<close>. An instruction with one of
  these two opcodes falls through the dispatch: it returns at once and changes nothing,
  neither the tick counter nor the program counter. \<^verbatim>\<open>HALT\<close> raises
  \<open>StopIteration\<close> with the state unchanged. Every other instruction that executes to
  its end advances the tick counter, by the number of ticks of its opcode, and latches
  the program counter: to \<open>pc + 1\<close> for every opcode but the jumps, to the argument for
  \<^verbatim>\<open>JMP\<close>, and to \<open>pc + 1\<close> or to the argument of the instruction at \<open>pc\<close> for
  \<^verbatim>\<open>JNT\<close>.
\<close>

theorem dispatch_table:
  "(handlers h op = None \<longleftrightarrow> op \<in> {MINUS, PRINT})
   \<and> (opcode i \<in> {MINUS, PRINT} \<longrightarrow> execute_micro_operation h (Ins i) cu = Ok () cu)
   \<and> (opcode i = HALT \<longrightarrow> execute_micro_operation h (Ins i) cu = Raise StopIteration cu)
   \<and> (opcode i \<notin> {MINUS, PRINT} \<and> execute_micro_operation h (Ins i) cu = Ok u cu' \<longrightarrow>
        opcode i \<noteq> HALT
      \<and> cu_tick cu < cu_tick cu'
      \<and> cu_tick cu' = cu_tick cu + op_ticks (opcode i)
      \<and> (opcode i \<notin> {JMP, JNT} \<longrightarrow> (\<exists>p. pc cu = PyInt p \<and> pc cu' = PyInt (p + 1)))
      \<and> (opcode i = JMP \<longrightarrow> arg i = Some (pc cu'))
      \<and> (opcode i = JNT \<longrightarrow>
            (\<exists>p. pc cu = PyInt p \<and> pc cu' = PyInt (p + 1))
          \<or> (\<exists>j. get_instruction (pc cu) (mem cu) = Ok (Ins j) (mem cu) \<and> arg j = Some (pc cu'))))"
proof (intro conjI impI)
  show "handlers h op = None \<longleftrightarrow> op \<in> {MINUS, PRINT}" by (rule handlers_None)
next
  assume "opcode i \<in> {MINUS, PRINT}"
  then show "execute_micro_operation h (Ins i) cu = Ok () cu"
    by (auto simp: execute_micro_operation_def)
next
  assume "opcode i = HALT"
  then show "execute_micro_operation h (Ins i) cu = Raise StopIteration cu"
    by (simp add: execute_micro_operation_def micro_halt_def)
next
  assume a: "opcode i \<notin> {MINUS, PRINT} \<and> execute_micro_operation h (Ins i) cu = Ok u cu'"
  then obtain f where f: "handlers h (opcode i) = Some f"
    using handlers_None [of h "opcode i"] by auto
  with a have run: "f i cu = Ok u cu'" by (simp add: execute_micro_operation_def)
  show halt: "opcode i \<noteq> HALT"
  proof
    assume "opcode i = HALT"
    with f run show False by (simp add: micro_halt_def)
  qed
  show t: "cu_tick cu' = cu_tick cu + op_ticks (opcode i)"
    by (rule handler_ticks [OF f run])
  from op_ticks_pos [OF f halt] t show "cu_tick cu < cu_tick cu'" by simp
  {
    assume "opcode i \<notin> {JMP, JNT}"
    then show "\<exists>p. pc cu = PyInt p \<and> pc cu' = PyInt (p + 1)"
      by (rule handler_pc [OF f run])
  }
  {
    assume "opcode i = JMP"
    with f run show "arg i = Some (pc cu')" by (auto dest: jump_pc)
  }
  {
    assume "opcode i = JNT"
    with f run show "(\<exists>p. pc cu = PyInt p \<and> pc cu' = PyInt (p + 1))
          \<or> (\<exists>j. get_instruction (pc cu) (mem cu) = Ok (Ins j) (mem cu) \<and> arg j = Some (pc cu'))"
      by (auto dest: jump_if_not_true_pc)
  }
qed

text \<open>
  The theorem on a \<^verbatim>\<open>MINUS\<close>, which falls through, and on the \<^verbatim>\<open>ROT\<close> of the stack
  1, 2, 3, which takes one tick and steps the program counter.
\<close>

theorem dispatch_table_witness:
  "(handlers plain_host MINUS = None \<longleftrightarrow> MINUS \<in> {MINUS, PRINT})
   \<and> opcode (op_instr MINUS) \<in> {MINUS, PRINT}
   \<and> execute_micro_operation plain_host (Ins (op_instr MINUS)) minus_example = Ok () minus_example
   \<and> opcode (op_instr ROT) \<notin> {MINUS, PRINT}
   \<and> execute_micro_operation plain_host (Ins (op_instr ROT)) rot_example = Ok () rot_example_after
   \<and> cu_tick rot_example < cu_tick rot_example_after
   \<and> cu_tick rot_example_after = cu_tick rot_example + op_ticks (opcode (op_instr ROT))
   \<and> (\<exists>p. pc rot_example = PyInt p \<and> pc rot_example_after = PyInt (p + 1))"
proof -
  have m: "opcode (op_instr MINUS) \<in> {MINUS, PRINT}" by (simp add: op_instr_def)
  have r: "opcode (op_instr ROT) \<notin> {MINUS, PRINT}" "opcode (op_instr ROT) \<notin> {JMP, JNT}"
    by (simp_all add: op_instr_def)
  have run: "execute_micro_operation plain_host (Ins (op_instr ROT)) rot_example
      = Ok () rot_example_after"
    unfolding rot_example_after_def
    by (simp add: rot_example_def run_defs micro_rotate_def)
  note t1 = dispatch_table [of plain_host MINUS "op_instr MINUS" minus_example]
  note t2 = dispatch_table [of plain_host MINUS "op_instr ROT" rot_example "()" rot_example_after]
  from t1 have a: "handlers plain_host MINUS = None \<longleftrightarrow> MINUS \<in> {MINUS, PRINT}" by blast
  from t1 m have b: "execute_micro_operation plain_host (Ins (op_instr MINUS)) minus_example
      = Ok () minus_example" by blast
  from t2 r run have c: "cu_tick rot_example < cu_tick rot_example_after"
    and d: "cu_tick rot_example_after = cu_tick rot_example + op_ticks (opcode (op_instr ROT))"
    and e: "\<exists>p. pc rot_example = PyInt p \<and> pc rot_example_after = PyInt (p + 1)"
    by blast+
  from a m b r(1) run c d e show ?thesis by (intro conjI)
qed

text \<open>
  The claim as stated fails on a machine about to execute \<^verbatim>\<open>MINUS\<close>: the dispatch has
  no handler for it (nor for \<^verbatim>\<open>PRINT\<close>), and the executed instruction leaves the whole
  state as it was: no tick, and the program counter not latched. The program
  \<^verbatim>\<open>MINUS, HALT\<close> run with a ceiling of 3 therefore retires 3 instructions in 0 ticks and
  never reaches its \<^verbatim>\<open>HALT\<close>.
\<close>

theorem dispatch_table_counterexample:
  "get_instruction (pc minus_example) (mem minus_example)
     = Ok (Ins (op_instr MINUS)) (mem minus_example)
   \<and> opcode (op_instr MINUS) = MINUS
   \<and> handlers plain_host MINUS = None
   \<and> handlers plain_host PRINT = None
   \<and> decode_and_execute plain_host minus_example = Ok () minus_example
   \<and> simulation plain_host minus_program 600 3 [] [] = Inr ([], 3, 0)"
  using minus_program_run
  by (simp add: example_defs run_defs)

section \<open>Stack safety\<close>

text \<open>
  C7. In every state that a run of \<^verbatim>\<open>simulation\<close> reaches between two instructions
  without having raised (the state after \<open>n\<close> instructions, for any \<open>n\<close>), the head of the operand stack satisfies \<open>0 \<le> head < 256\<close>;
  \<^verbatim>\<open>get_tos(offset)\<close> fails with an assertion error for every \<open>offset \<ge> head\<close>, and
  when it returns a value, the value is the slot \<open>head - offset - 1\<close>, which lies
  strictly below the head; and within an instruction, every \<^verbatim>\<open>latch_head\<close> that
  returns leaves the head in the same range.
\<close>

theorem stack_safety:
  assumes init: "initial_unit code ms inp D = Inr cu0"
    and reach: "steps h n cu0 = Ok u cu"
  shows "0 \<le> head (data_path cu) \<and> head (data_path cu) < 256
    \<and> (\<forall>offset. head (data_path cu) \<le> offset \<longrightarrow>
          get_tos offset (data_path cu) = Raise AssertionError (data_path cu))
    \<and> (\<forall>offset v d. get_tos offset (data_path cu) = Ok v d \<longrightarrow>
          0 \<le> head (data_path cu) - offset - 1
        \<and> head (data_path cu) - offset - 1 < head (data_path cu)
        \<and> py_index (stack (data_path cu)) (head (data_path cu) - offset - 1) = Some v)
    \<and> (\<forall>k d. latch_head k (data_path cu) = Ok () d \<longrightarrow> 0 \<le> head d \<and> head d < 256)"
proof -
  have "keeps stack_256 (decode_and_execute h)"
    by (rule keeps_decode [OF stack_256_stable stack_256_latch_alu])
  from steps_keeps [OF reach this initial_unit_stack [OF init]]
  have inv: "stack_256 (data_path cu)" .
  then have range: "0 \<le> head (data_path cu)" "head (data_path cu) < 256"
    and size: "dp_memory_size (data_path cu) = 256"
    by (simp_all add: stack_256_def dp_wf_def)
  have fail: "get_tos offset (data_path cu) = Raise AssertionError (data_path cu)"
    if "head (data_path cu) \<le> offset" for offset
    using that by (simp add: get_tos_def)
  have below: "0 \<le> head (data_path cu) - offset - 1
        \<and> head (data_path cu) - offset - 1 < head (data_path cu)
        \<and> py_index (stack (data_path cu)) (head (data_path cu) - offset - 1) = Some v"
    if "get_tos offset (data_path cu) = Ok v d" for offset v d
    using get_tos_OkD [OF that] by auto
  have latch: "0 \<le> head d \<and> head d < 256"
    if "latch_head k (data_path cu) = Ok () d" for k d
    using latch_head_OkD [OF that] size by auto
  show ?thesis using range fail below latch by blast
qed

text \<open>
  The theorem on the program that pushes 5 and halts, in the state after the push: the
  head is 1, \<^verbatim>\<open>get_tos(1)\<close> fails, and \<^verbatim>\<open>get_tos(0)\<close> returns slot 0.
\<close>

theorem stack_safety_witness:
  "initial_unit push_program 600 [] [] = Inr push_start
   \<and> steps plain_host 1 push_start = Ok () push_done
   \<and> head (data_path push_done) = 1
   \<and> 0 \<le> head (data_path push_done) \<and> head (data_path push_done) < 256
   \<and> get_tos 1 (data_path push_done) = Raise AssertionError (data_path push_done)
   \<and> get_tos 0 (data_path push_done) = Ok (Num 5) (data_path push_done)
   \<and> py_index (stack (data_path push_done)) 0 = Some (Num 5)"
proof -
  have reach: "steps plain_host 1 push_start = Ok () push_done"
    by (simp add: push_example_run)
  note t = stack_safety [OF push_example_initial reach]
  have top: "get_tos 0 (data_path push_done) = Ok (Num 5) (data_path push_done)"
    unfolding push_done_def
    by (simp add: push_start_def push_program_def push_5_def run_defs micro_push_def int_arg_def)
  from t have range: "0 \<le> head (data_path push_done)" "head (data_path push_done) < 256"
    by simp_all
  from t have "head (data_path push_done) \<le> 1 \<longrightarrow>
      get_tos 1 (data_path push_done) = Raise AssertionError (data_path push_done)"
    by blast
  then have fail: "get_tos 1 (data_path push_done) = Raise AssertionError (data_path push_done)"
    by (simp add: push_example_head)
  from t top have "py_index (stack (data_path push_done)) (head (data_path push_done) - 0 - 1)
      = Some (Num 5)"
    by blast
  then have slot: "py_index (stack (data_path push_done)) 0 = Some (Num 5)"
    by (simp add: push_example_head)
  from push_example_initial reach push_example_head range fail top slot show ?thesis by simp
qed

section \<open>The instruction ceiling\<close>

text \<open>
  C9 (as amended). For every program whose first \<open>N\<close> instructions all complete, that
  is, whose execution within them neither reaches \<^verbatim>\<open>HALT\<close>, nor reads from an empty
  input queue, nor fails an assertion or raises any other error, running
  \<^verbatim>\<open>simulation\<close> with the instruction ceiling \<open>N \<ge> 0\<close> terminates without raising and
  returns the output accumulated so far, an instruction count exactly equal to \<open>N\<close>,
  and the ticks elapsed.
\<close>

theorem ceiling_run:
  assumes init: "initial_unit code ms inp D = Inr cu0"
    and N: "0 \<le> N"
    and run: "steps h (nat N) cu0 = Ok () cu'"
  shows "simulation h code ms N inp D = Inr (output_buffer (mem cu'), N, cu_tick cu')"
proof -
  from N have "0 + int (nat N) = N" by simp
  from simulation_loop_steps [OF run this] show ?thesis
    by (simp add: simulation_initial [OF init] cur_tick_def)
qed

text \<open>
  The theorem on the unconditional self-jump with a ceiling of 100: the run returns no
  output, 100 instructions and 100 ticks.
\<close>

theorem ceiling_run_witness:
  "initial_unit [jmp_self] 600 [] [] = Inr self_jump_unit
   \<and> (0::int) \<le> 100
   \<and> steps plain_host (nat 100) self_jump_unit = Ok () (self_jump_unit\<lparr>cu_tick := 100\<rparr>)
   \<and> simulation plain_host [jmp_self] 600 100 [] [] = Inr ([], 100, 100)"
proof -
  have n: "(0::int) \<le> 100" by simp
  have run: "steps plain_host (nat 100) self_jump_unit = Ok () (self_jump_unit\<lparr>cu_tick := 100\<rparr>)"
    using self_jump_steps [of plain_host "nat 100" 0] by (simp add: self_jump_tick)
  from ceiling_run [OF self_jump_initial n run] self_jump_initial run show ?thesis
    by (simp add: self_jump_unit_def machine_at_def)
qed

text \<open>
  The claim as stated fails on the program \<^verbatim>\<open>DROP\<close>, run with a ceiling of 1 and no
  input: it never reaches \<^verbatim>\<open>HALT\<close> and never reads the input, and the assertion of
  \<^verbatim>\<open>latch_head\<close> fails on the empty stack; \<^verbatim>\<open>simulation\<close> catches only
  \<^verbatim>\<open>StopIteration\<close>, so the error leaves it.
\<close>

theorem ceiling_run_counterexample:
  "simulation plain_host drop_program 600 1 [] [] = Inl AssertionError"
  by (simp add: simulation_def drop_program_def Memory_init_def DataPath_init_def
      ControlUnit_init_def simulation_loop.simps run_defs micro_drop_def)

section \<open>Round trip through a program file\<close>

text \<open>
  C6. The claim asks that \<^verbatim>\<open>read_code\<close> gives back what \<^verbatim>\<open>write_code\<close> wrote, also when
  the data segment is empty. The code does not do so: \<^verbatim>\<open>write_code\<close> with an empty
  data segment writes the program alone, and on every such file (the text of
  \<^verbatim>\<open>json.dumps(code, indent=4)\<close> never holds a \<^verbatim>\<open>]\<close>, a newline and a \<^verbatim>\<open>[\<close> in a row)
  \<^verbatim>\<open>read_code\<close> raises instead of returning. When the text does not contain
  \<^verbatim>\<open>data\<close>, the branch without a data segment reads the file a second time, gets the
  empty text and fails to decode it; when some string of the program contains
  \<^verbatim>\<open>data\<close>, the other branch is taken and \<^verbatim>\<open>split_content[1]\<close> does not exist.
\<close>

theorem read_code_without_data:
  assumes "\<not> contains '']\<newline>['' (dumps j code)"
  shows "isl (read_code j (write_code j code []))
    \<and> (\<not> contains ''data'' (dumps j code) \<and> loads j [] = None \<longrightarrow>
          read_code j (write_code j code []) = Inl JSONDecodeError)
    \<and> (contains ''data'' (dumps j code) \<longrightarrow>
          read_code j (write_code j code []) = Inl IndexError)"
proof -
  have w: "write_code j code [] = dumps j code" by (simp add: write_code_def)
  show ?thesis
  proof (cases "contains ''data'' (dumps j code)")
    case True
    from read_code_no_split [OF True assms] True show ?thesis by (simp add: w)
  next
    case False
    from read_code_no_data [OF False] False show ?thesis
      by (auto simp: w split: option.splits sum.splits)
  qed
qed

text \<open>
  The theorem on the program \<^verbatim>\<open>[{"opcode": Opcode.HALT}]\<close> with no data: \<^verbatim>\<open>write_code\<close>
  writes the 40 characters of \<open>halt_text\<close>, and \<^verbatim>\<open>read_code\<close> raises
  \<open>JSONDecodeError\<close>.
\<close>

theorem read_code_without_data_witness:
  "\<not> contains '']\<newline>['' (dumps halt_json halt_code)
   \<and> \<not> contains ''data'' (dumps halt_json halt_code)
   \<and> loads halt_json [] = None
   \<and> write_code halt_json halt_code [] = halt_text
   \<and> isl (read_code halt_json (write_code halt_json halt_code []))
   \<and> read_code halt_json (write_code halt_json halt_code []) = Inl JSONDecodeError"
proof -
  have h: "\<not> contains '']\<newline>['' (dumps halt_json halt_code)"
    by (simp add: halt_json_def halt_text_def)
  have d: "\<not> contains ''data'' (dumps halt_json halt_code)"
    by (simp add: halt_json_def halt_text_def)
  have l: "loads halt_json [] = None" by (simp add: halt_json_def halt_text_def)
  have w: "write_code halt_json halt_code [] = halt_text"
    by (simp add: write_code_def halt_json_def)
  from read_code_without_data [OF h] d l
  have "isl (read_code halt_json (write_code halt_json halt_code []))"
    and "read_code halt_json (write_code halt_json halt_code []) = Inl JSONDecodeError"
    by blast+
  with h d l w show ?thesis by (intro conjI)
qed

end
